theory Spec2Isabelle
  imports Main "HOL-Library.Word"
begin

section \<open>Host types used by xact_handling.c\<close>

text \<open>
  \<^verbatim>\<open>xact_handling.c\<close> is written against the lock manager of the database server that
  hosts the extension. The server's declarations (\<^verbatim>\<open>storage/lock.h\<close>, \<^verbatim>\<open>storage/lmgr.h\<close>,
  \<^verbatim>\<open>access/xact.h\<close>, \<^verbatim>\<open>miscadmin.h\<close>) are not part of the extension. Their constants and
  the conflict table are written down here with the values the server gives them; the
  lock manager's entry points follow the contract the specification states for them.
  Every function of \<^verbatim>\<open>xact_handling.c\<close> is then translated line by line on top.
\<close>

type_synonym Oid = "32 word"

definition InvalidOid :: Oid where
  "InvalidOid = 0"

text \<open>\<^verbatim>\<open>typedef int LOCKMODE\<close>; the eight table-level modes are numbered 1 to 8.\<close>

type_synonym LOCKMODE = int

definition NoLock :: LOCKMODE where "NoLock = 0"
definition AccessShareLock :: LOCKMODE where "AccessShareLock = 1"
definition RowShareLock :: LOCKMODE where "RowShareLock = 2"
definition RowExclusiveLock :: LOCKMODE where "RowExclusiveLock = 3"
definition ShareUpdateExclusiveLock :: LOCKMODE where "ShareUpdateExclusiveLock = 4"
definition ShareLock :: LOCKMODE where "ShareLock = 5"
definition ShareRowExclusiveLock :: LOCKMODE where "ShareRowExclusiveLock = 6"
definition ExclusiveLock :: LOCKMODE where "ExclusiveLock = 7"
definition AccessExclusiveLock :: LOCKMODE where "AccessExclusiveLock = 8"

text \<open>
  The server's conflict table (\<^verbatim>\<open>LockConflicts[]\<close>): for each mode, the modes it cannot
  be held together with by two different backends. A mode number outside 1..8 has no row.
\<close>

definition LockConflicts :: "LOCKMODE \<Rightarrow> LOCKMODE list" where
  "LockConflicts m =
    (if m = AccessShareLock then [AccessExclusiveLock]
     else if m = RowShareLock then [ExclusiveLock, AccessExclusiveLock]
     else if m = RowExclusiveLock then
       [ShareLock, ShareRowExclusiveLock, ExclusiveLock, AccessExclusiveLock]
     else if m = ShareUpdateExclusiveLock then
       [ShareUpdateExclusiveLock, ShareLock, ShareRowExclusiveLock, ExclusiveLock,
        AccessExclusiveLock]
     else if m = ShareLock then
       [RowExclusiveLock, ShareUpdateExclusiveLock, ShareRowExclusiveLock, ExclusiveLock,
        AccessExclusiveLock]
     else if m = ShareRowExclusiveLock then
       [RowExclusiveLock, ShareUpdateExclusiveLock, ShareLock, ShareRowExclusiveLock,
        ExclusiveLock, AccessExclusiveLock]
     else if m = ExclusiveLock then
       [RowShareLock, RowExclusiveLock, ShareUpdateExclusiveLock, ShareLock,
        ShareRowExclusiveLock, ExclusiveLock, AccessExclusiveLock]
     else if m = AccessExclusiveLock then
       [AccessShareLock, RowShareLock, RowExclusiveLock, ShareUpdateExclusiveLock,
        ShareLock, ShareRowExclusiveLock, ExclusiveLock, AccessExclusiveLock]
     else [])"

definition DoLockModesConflict :: "LOCKMODE \<Rightarrow> LOCKMODE \<Rightarrow> bool" where
  "DoLockModesConflict mode1 mode2 = (mode2 \<in> set (LockConflicts mode1))"

text \<open>
  \<^verbatim>\<open>LOCKTAG\<close> and the macro \<^verbatim>\<open>SET_LOCKTAG_RELATION(tag, dboid, reloid)\<close>, which fills the
  six fields of a relation lock's tag.
\<close>

record LOCKTAG =
  locktag_field1 :: "32 word"
  locktag_field2 :: "32 word"
  locktag_field3 :: "32 word"
  locktag_field4 :: "16 word"
  locktag_type :: "8 word"
  locktag_lockmethodid :: "8 word"

definition LOCKTAG_RELATION :: "8 word" where
  "LOCKTAG_RELATION = 0"

definition DEFAULT_LOCKMETHOD :: "8 word" where
  "DEFAULT_LOCKMETHOD = 1"

definition SET_LOCKTAG_RELATION :: "Oid \<Rightarrow> Oid \<Rightarrow> LOCKTAG" where
  "SET_LOCKTAG_RELATION dboid reloid =
    \<lparr>locktag_field1 = dboid, locktag_field2 = reloid, locktag_field3 = 0,
     locktag_field4 = 0, locktag_type = LOCKTAG_RELATION,
     locktag_lockmethodid = DEFAULT_LOCKMETHOD\<rparr>"

datatype LockAcquireResult =
  LOCKACQUIRE_NOT_AVAIL
| LOCKACQUIRE_OK
| LOCKACQUIRE_ALREADY_HELD

text \<open>Isolation levels of \<^verbatim>\<open>access/xact.h\<close>; \<^verbatim>\<open>XactIsoLevel\<close> is an \<^verbatim>\<open>int\<close>.\<close>

definition XACT_READ_UNCOMMITTED :: int where "XACT_READ_UNCOMMITTED = 0"
definition XACT_READ_COMMITTED :: int where "XACT_READ_COMMITTED = 1"
definition XACT_REPEATABLE_READ :: int where "XACT_REPEATABLE_READ = 2"
definition XACT_SERIALIZABLE :: int where "XACT_SERIALIZABLE = 3"

text \<open>
  The per-backend globals the file reads: the backend's identity in the lock manager,
  \<^verbatim>\<open>MyDatabaseId\<close>, \<^verbatim>\<open>XactIsoLevel\<close>, and the catalog predicate \<^verbatim>\<open>IsSharedRelation\<close>
  (a fixed table of catalog identifiers in the server, taken here as a parameter).
\<close>

record backend =
  MyBackendId :: nat
  MyDatabaseId :: Oid
  XactIsoLevel :: int
  IsSharedRelation :: "Oid \<Rightarrow> bool"

text \<open>
  Concrete backends for the closed examples below: a catalog in which relation 1262 is
  the only shared one, and backends 1 and 2 connected to databases 5 and 6.
\<close>

definition shared_1262 :: "Oid \<Rightarrow> bool" where
  "shared_1262 relid = (relid = 1262)"

definition backend_of :: "nat \<Rightarrow> Oid \<Rightarrow> int \<Rightarrow> backend" where
  "backend_of b db lvl =
    \<lparr>MyBackendId = b, MyDatabaseId = db, XactIsoLevel = lvl, IsSharedRelation = shared_1262\<rparr>"

section \<open>The lock manager\<close>

text \<open>
  The lock table is kept as the list of outstanding lock references: one element
  \<open>(backend, tag, mode)\<close> for each successful \<^verbatim>\<open>LockAcquire\<close> that has not been released
  yet. The reference count \<^verbatim>\<open>nLocks\<close> of a backend's local lock is the number of its
  elements. Beside the table the state carries the history of the calls made to the lock
  manager, in order; the history is never read by any operation.
\<close>

datatype lmgr_call =
  AcquireCall nat LOCKTAG LOCKMODE bool LockAcquireResult
| ReleaseCall nat LOCKTAG LOCKMODE bool

record lmgr =
  holds :: "(nat \<times> LOCKTAG \<times> LOCKMODE) list"
  calls :: "lmgr_call list"

definition nLocks :: "backend \<Rightarrow> LOCKTAG \<Rightarrow> LOCKMODE \<Rightarrow> lmgr \<Rightarrow> nat" where
  "nLocks c locktag lockmode s = count_list (holds s) (MyBackendId c, locktag, lockmode)"

text \<open>
  \<^verbatim>\<open>LockCheckConflicts\<close>: does the requested mode conflict with a mode another backend
  holds on the same tag? The requester's own references never count.
\<close>

definition LockCheckConflicts :: "backend \<Rightarrow> LOCKTAG \<Rightarrow> LOCKMODE \<Rightarrow> lmgr \<Rightarrow> bool" where
  "LockCheckConflicts c locktag lockmode s =
    list_ex (\<lambda>(b, t, m). b \<noteq> MyBackendId c \<and> t = locktag \<and> DoLockModesConflict lockmode m)
      (holds s)"

text \<open>
  Modelled from the spec: the server's \<^verbatim>\<open>LockAcquire(locktag, lockmode, sessionLock,
  dontWait)\<close>, which is not among the sources. Sections 4.1, 5 and 9 describe a reentrant,
  strength-levelled lock table with reference counts, whose conditional acquire never
  blocks and tells "already held" from "newly acquired". A mode the backend already
  holds is granted again at once (the count goes up by one) and reported as already
  held. Otherwise the request is granted when no other backend holds a conflicting mode.
  On a conflict the call returns \<^verbatim>\<open>LOCKACQUIRE_NOT_AVAIL\<close> and takes nothing when
  \<^verbatim>\<open>dontWait\<close> is set, and otherwise puts the process to sleep: \<open>None\<close> stands for the
  suspended caller, who has not returned in this state of the table.
  \<^verbatim>\<open>sessionLock\<close> only selects the owner the reference is booked on and is always
  \<^verbatim>\<open>false\<close> in this file.
\<close>

definition LockAcquire ::
  "backend \<Rightarrow> LOCKTAG \<Rightarrow> LOCKMODE \<Rightarrow> bool \<Rightarrow> bool \<Rightarrow> lmgr \<Rightarrow> (LockAcquireResult \<times> lmgr) option" where
  "LockAcquire c locktag lockmode sessionLock dontWait s =
    (if 0 < nLocks c locktag lockmode s then
       Some (LOCKACQUIRE_ALREADY_HELD,
         \<lparr>holds = (MyBackendId c, locktag, lockmode) # holds s,
          calls = calls s @
            [AcquireCall (MyBackendId c) locktag lockmode dontWait LOCKACQUIRE_ALREADY_HELD]\<rparr>)
     else if LockCheckConflicts c locktag lockmode s then
       (if dontWait then
          Some (LOCKACQUIRE_NOT_AVAIL,
            \<lparr>holds = holds s,
             calls = calls s @
               [AcquireCall (MyBackendId c) locktag lockmode dontWait LOCKACQUIRE_NOT_AVAIL]\<rparr>)
        else None)
     else
       Some (LOCKACQUIRE_OK,
         \<lparr>holds = (MyBackendId c, locktag, lockmode) # holds s,
          calls = calls s @
            [AcquireCall (MyBackendId c) locktag lockmode dontWait LOCKACQUIRE_OK]\<rparr>))"

text \<open>
  Modelled from the spec: the server's \<^verbatim>\<open>LockRelease(locktag, lockmode, sessionLock)\<close>,
  which is not among the sources (section 4.1: a release decrements the reference count).
  It gives one reference back; without a reference to give back it warns and returns
  \<^verbatim>\<open>false\<close>.
\<close>

definition LockRelease :: "backend \<Rightarrow> LOCKTAG \<Rightarrow> LOCKMODE \<Rightarrow> bool \<Rightarrow> lmgr \<Rightarrow> bool \<times> lmgr" where
  "LockRelease c locktag lockmode sessionLock s =
    (if nLocks c locktag lockmode s = 0 then
       (False,
        \<lparr>holds = holds s,
         calls = calls s @ [ReleaseCall (MyBackendId c) locktag lockmode False]\<rparr>)
     else
       (True,
        \<lparr>holds = remove1 (MyBackendId c, locktag, lockmode) (holds s),
         calls = calls s @ [ReleaseCall (MyBackendId c) locktag lockmode True]\<rparr>))"

section \<open>xact_handling.c\<close>

text \<open>\<^verbatim>\<open>SetLocktagRelationOid\<close>: the tag of a relation, given only its identifier.\<close>

definition SetLocktagRelationOid :: "backend \<Rightarrow> Oid \<Rightarrow> LOCKTAG" where
  "SetLocktagRelationOid c relid =
    (let dbid = (if IsSharedRelation c relid then InvalidOid else MyDatabaseId c)
     in SET_LOCKTAG_RELATION dbid relid)"

text \<open>
  Modelled from the spec: the three entry points of \<^verbatim>\<open>storage/lmgr.h\<close> the file calls,
  which are not among the sources (section 4.1: blocking acquire, release, and the
  non-blocking conditional attempt). Each builds the tag as \<^verbatim>\<open>SetLocktagRelationOid\<close>
  does and passes \<^verbatim>\<open>sessionLock = false\<close>; \<^verbatim>\<open>LockRelationOid\<close> waits,
  \<^verbatim>\<open>ConditionalLockRelationOid\<close> does not and reports whether it got the lock.
\<close>

definition LockRelationOid :: "backend \<Rightarrow> Oid \<Rightarrow> LOCKMODE \<Rightarrow> lmgr \<Rightarrow> lmgr option" where
  "LockRelationOid c relid lockmode s =
    (case LockAcquire c (SetLocktagRelationOid c relid) lockmode False False s of
       None \<Rightarrow> None
     | Some (res, s') \<Rightarrow> Some s')"

definition ConditionalLockRelationOid ::
  "backend \<Rightarrow> Oid \<Rightarrow> LOCKMODE \<Rightarrow> lmgr \<Rightarrow> (bool \<times> lmgr) option" where
  "ConditionalLockRelationOid c relid lockmode s =
    (case LockAcquire c (SetLocktagRelationOid c relid) lockmode False True s of
       None \<Rightarrow> None
     | Some (res, s') \<Rightarrow> if res = LOCKACQUIRE_NOT_AVAIL then Some (False, s') else Some (True, s'))"

definition UnlockRelationOid :: "backend \<Rightarrow> Oid \<Rightarrow> LOCKMODE \<Rightarrow> lmgr \<Rightarrow> lmgr" where
  "UnlockRelationOid c relid lockmode s =
    snd (LockRelease c (SetLocktagRelationOid c relid) lockmode False s)"

definition xact_lock_partitioned_rel :: "backend \<Rightarrow> Oid \<Rightarrow> lmgr \<Rightarrow> lmgr option" where
  "xact_lock_partitioned_rel c relid s = LockRelationOid c relid ShareUpdateExclusiveLock s"

definition xact_unlock_partitioned_rel :: "backend \<Rightarrow> Oid \<Rightarrow> lmgr \<Rightarrow> lmgr" where
  "xact_unlock_partitioned_rel c relid s = UnlockRelationOid c relid ShareUpdateExclusiveLock s"

definition xact_lock_rel_data :: "backend \<Rightarrow> Oid \<Rightarrow> lmgr \<Rightarrow> lmgr option" where
  "xact_lock_rel_data c relid s = LockRelationOid c relid ShareLock s"

definition xact_unlock_rel_data :: "backend \<Rightarrow> Oid \<Rightarrow> lmgr \<Rightarrow> lmgr" where
  "xact_unlock_rel_data c relid s = UnlockRelationOid c relid ShareLock s"

text \<open>
  \<^verbatim>\<open>do_we_hold_the_lock\<close>: a conditional acquire; an acquire that was granted (already
  held or new) is released once, any other result releases nothing.
\<close>

definition do_we_hold_the_lock ::
  "backend \<Rightarrow> Oid \<Rightarrow> LOCKMODE \<Rightarrow> lmgr \<Rightarrow> (bool \<times> lmgr) option" where
  "do_we_hold_the_lock c relid lockmode s =
    (let tag = SetLocktagRelationOid c relid in
     case LockAcquire c tag lockmode False True s of
       None \<Rightarrow> None
     | Some (res, s1) \<Rightarrow>
         (case res of
            LOCKACQUIRE_ALREADY_HELD \<Rightarrow> Some (True, snd (LockRelease c tag lockmode False s1))
          | LOCKACQUIRE_OK \<Rightarrow> Some (False, snd (LockRelease c tag lockmode False s1))
          | _ \<Rightarrow> Some (False, s1)))"

text \<open>
  The \<^verbatim>\<open>for\<close> loop of \<^verbatim>\<open>xact_bgw_conflicting_lock_exists\<close>, entered with the current
  value of \<^verbatim>\<open>lockmode\<close>.
\<close>

function xact_bgw_conflicting_lock_exists_loop ::
  "backend \<Rightarrow> Oid \<Rightarrow> LOCKMODE \<Rightarrow> lmgr \<Rightarrow> (bool \<times> lmgr) option" where
  "xact_bgw_conflicting_lock_exists_loop c relid lockmode s =
    (if lockmode \<le> AccessExclusiveLock then
       (case do_we_hold_the_lock c relid lockmode s of
          None \<Rightarrow> None
        | Some (held, s1) \<Rightarrow>
            if held then Some (True, s1)
            else xact_bgw_conflicting_lock_exists_loop c relid (lockmode + 1) s1)
     else Some (False, s))"
  by pat_completeness auto
termination
  by (relation "measure (\<lambda>(c, relid, lockmode, s). nat (AccessExclusiveLock + 1 - lockmode))")
     auto

definition xact_bgw_conflicting_lock_exists ::
  "backend \<Rightarrow> Oid \<Rightarrow> lmgr \<Rightarrow> (bool \<times> lmgr) option" where
  "xact_bgw_conflicting_lock_exists c relid s =
    xact_bgw_conflicting_lock_exists_loop c relid ShareUpdateExclusiveLock s"

definition xact_is_table_being_modified ::
  "backend \<Rightarrow> Oid \<Rightarrow> lmgr \<Rightarrow> (bool \<times> lmgr) option" where
  "xact_is_table_being_modified c relid s =
    (case ConditionalLockRelationOid c relid ExclusiveLock s of
       None \<Rightarrow> None
     | Some (got, s1) \<Rightarrow>
         if got then Some (False, UnlockRelationOid c relid ExclusiveLock s1)
         else Some (True, s1))"

definition xact_is_level_read_committed :: "backend \<Rightarrow> bool" where
  "xact_is_level_read_committed c =
    (if XactIsoLevel c \<le> XACT_READ_COMMITTED then True else False)"

section \<open>Call histories\<close>

text \<open>
  Three readings of a stretch of the call history: the modes of its acquire calls, in
  order; whether every acquire call in it was made with \<^verbatim>\<open>dontWait\<close>; and whether it is
  balanced, that is, every acquire that was granted (newly or as already held) is
  followed at once by a successful release of the same backend, tag and mode, and every
  acquire that was refused is followed by no release.
\<close>

fun acquire_modes :: "lmgr_call list \<Rightarrow> LOCKMODE list" where
  "acquire_modes [] = []"
| "acquire_modes (AcquireCall b t m d r # cs) = m # acquire_modes cs"
| "acquire_modes (ReleaseCall b t m ok # cs) = acquire_modes cs"

fun never_waits :: "lmgr_call list \<Rightarrow> bool" where
  "never_waits [] = True"
| "never_waits (AcquireCall b t m d r # cs) = (d \<and> never_waits cs)"
| "never_waits (ReleaseCall b t m ok # cs) = never_waits cs"

fun balanced :: "lmgr_call list \<Rightarrow> bool" where
  "balanced [] = True"
| "balanced (AcquireCall b t m d LOCKACQUIRE_NOT_AVAIL # cs) = balanced cs"
| "balanced (AcquireCall b t m d r # ReleaseCall b' t' m' ok # cs) =
     (b' = b \<and> t' = t \<and> m' = m \<and> ok \<and> balanced cs)"
| "balanced cs = False"

text \<open>
  The tag a call names, and whether every call made between two states names one given
  tag.
\<close>

fun call_tag :: "lmgr_call \<Rightarrow> LOCKTAG" where
  "call_tag (AcquireCall b t m d r) = t"
| "call_tag (ReleaseCall b t m ok) = t"

definition calls_on :: "LOCKTAG \<Rightarrow> lmgr \<Rightarrow> lmgr \<Rightarrow> bool" where
  "calls_on tag s s' =
    (take (length (calls s)) (calls s') = calls s
     \<and> list_all (\<lambda>e. call_tag e = tag) (drop (length (calls s)) (calls s')))"

text \<open>
  The calls one conditional probe of a mode makes to the lock manager, read off the
  lock table the probe starts in.
\<close>

definition probe_calls :: "backend \<Rightarrow> Oid \<Rightarrow> LOCKMODE \<Rightarrow> lmgr \<Rightarrow> lmgr_call list" where
  "probe_calls c relid lockmode s =
    (let b = MyBackendId c; tag = SetLocktagRelationOid c relid in
     if 0 < nLocks c tag lockmode s then
       [AcquireCall b tag lockmode True LOCKACQUIRE_ALREADY_HELD, ReleaseCall b tag lockmode True]
     else if LockCheckConflicts c tag lockmode s then
       [AcquireCall b tag lockmode True LOCKACQUIRE_NOT_AVAIL]
     else
       [AcquireCall b tag lockmode True LOCKACQUIRE_OK, ReleaseCall b tag lockmode True])"

section \<open>The backends sharing one lock table\<close>

text \<open>
  The server starts with an empty lock table; from then on any backend may call the
  lock manager, with any tag and mode. A waiting \<^verbatim>\<open>LockAcquire\<close> is a step only in a
  state in which it returns. The operations of \<^verbatim>\<open>xact_handling.c\<close> are sequences of such
  steps.
\<close>

definition lmgr_startup :: lmgr where
  "lmgr_startup = \<lparr>holds = [], calls = []\<rparr>"

inductive reachable :: "lmgr \<Rightarrow> bool" where
  startup: "reachable lmgr_startup"
| acquire: "reachable s \<Longrightarrow>
     LockAcquire c locktag lockmode sessionLock dontWait s = Some (res, s') \<Longrightarrow> reachable s'"
| release: "reachable s \<Longrightarrow>
     LockRelease c locktag lockmode sessionLock s = (ok, s') \<Longrightarrow> reachable s'"

text \<open>
  No two different backends hold conflicting modes on the same tag.
\<close>

definition compatible :: "lmgr \<Rightarrow> bool" where
  "compatible s =
    list_all (\<lambda>(b1, t1, m1).
      list_all (\<lambda>(b2, t2, m2). b1 = b2 \<or> t1 \<noteq> t2 \<or> \<not> DoLockModesConflict m1 m2) (holds s))
      (holds s)"

section \<open>pathman.h: the range search\<close>

text \<open>
  The result codes of \<^verbatim>\<open>search_range_partition_eq\<close>, as \<^verbatim>\<open>pathman.h\<close> declares them.
\<close>

datatype search_rangerel_result =
  SEARCH_RANGEREL_OUT_OF_RANGE
| SEARCH_RANGEREL_GAP
| SEARCH_RANGEREL_FOUND

text \<open>
  Modelled from the spec: \<^verbatim>\<open>RangeEntry\<close>, declared in \<^verbatim>\<open>relation_info.h\<close>, which is not
  among the sources. Section 3: one partition's half-open interval \<open>[min, max)\<close> plus the
  partition's identifier. The key type is any linear order; its order stands for the
  comparator.
\<close>

record 'a RangeEntry =
  child_oid :: Oid
  min_re :: 'a
  max_re :: 'a

text \<open>
  Modelled from the spec: the body of \<^verbatim>\<open>search_range_partition_eq\<close>, of which
  \<^verbatim>\<open>pathman.h\<close> has only the prototype. Section 4.2: a binary search of the sorted,
  non-overlapping sequence for the entry whose interval contains the value.
  \<open>range_bsearch\<close> searches the positions \<open>lo\<close> up to \<open>hi - 1\<close>; it answers \<open>Inl i\<close>
  when entry \<open>i\<close> contains the value and \<open>Inr i\<close> when no entry does and the value
  belongs between the entries \<open>i - 1\<close> and \<open>i\<close>.
\<close>

function range_bsearch :: "'a::linorder \<Rightarrow> 'a RangeEntry list \<Rightarrow> nat \<Rightarrow> nat \<Rightarrow> nat + nat" where
  "range_bsearch v ranges lo hi =
    (if hi \<le> lo then Inr lo
     else if v < min_re (ranges ! ((lo + hi) div 2)) then
       range_bsearch v ranges lo ((lo + hi) div 2)
     else if max_re (ranges ! ((lo + hi) div 2)) \<le> v then
       range_bsearch v ranges ((lo + hi) div 2 + 1) hi
     else Inl ((lo + hi) div 2))"
  by pat_completeness auto
termination
  by (relation "measure (\<lambda>(v, ranges, lo, hi). hi - lo)") auto

text \<open>
  Modelled from the spec: \<^verbatim>\<open>search_range_partition_eq\<close> itself. Section 4.2: out of
  range when the value is below the first interval or at or above the last interval's
  upper bound, a gap when it falls in a hole between two entries, found (with the entry,
  the out-parameter \<^verbatim>\<open>out_re\<close>) otherwise.
\<close>

definition search_range_partition_eq ::
  "'a::linorder \<Rightarrow> 'a RangeEntry list \<Rightarrow> search_rangerel_result \<times> 'a RangeEntry option" where
  "search_range_partition_eq v ranges =
    (case range_bsearch v ranges 0 (length ranges) of
       Inl i \<Rightarrow> (SEARCH_RANGEREL_FOUND, Some (ranges ! i))
     | Inr i \<Rightarrow>
         if i = 0 \<or> i = length ranges then (SEARCH_RANGEREL_OUT_OF_RANGE, None)
         else (SEARCH_RANGEREL_GAP, None))"

text \<open>
  Section 3's invariant of a relation's sequence: every interval has its bounds in order,
  and each interval ends before any later one begins.
\<close>

definition ranges_ok :: "'a::linorder RangeEntry list \<Rightarrow> bool" where
  "ranges_ok ranges =
    (list_all (\<lambda>re. min_re re \<le> max_re re) ranges
     \<and> sorted_wrt (\<lambda>re re'. max_re re \<le> min_re re') ranges)"

text \<open>
  The sequence of the spec's second scenario: \<open>[0,10)\<close> and \<open>[20,30)\<close>, with the hole
  \<open>[10,20)\<close> between them.
\<close>

definition example_ranges :: "int RangeEntry list" where
  "example_ranges =
    [\<lparr>child_oid = 101, min_re = 0, max_re = 10\<rparr>, \<lparr>child_oid = 102, min_re = 20, max_re = 30\<rparr>]"

section \<open>Basic facts\<close>

lemmas lockmode_defs =
  NoLock_def AccessShareLock_def RowShareLock_def RowExclusiveLock_def
  ShareUpdateExclusiveLock_def ShareLock_def ShareRowExclusiveLock_def
  ExclusiveLock_def AccessExclusiveLock_def

lemmas isolevel_defs =
  XACT_READ_UNCOMMITTED_def XACT_READ_COMMITTED_def XACT_REPEATABLE_READ_def
  XACT_SERIALIZABLE_def

declare xact_bgw_conflicting_lock_exists_loop.simps [simp del]

declare range_bsearch.simps [simp del]

lemma backend_of_sel:
  "MyBackendId (backend_of b db lvl) = b"
  "MyDatabaseId (backend_of b db lvl) = db"
  "XactIsoLevel (backend_of b db lvl) = lvl"
  "IsSharedRelation (backend_of b db lvl) = shared_1262"
  by (simp_all add: backend_of_def)

lemma tag_16384: "SetLocktagRelationOid (backend_of b db lvl) 16384 = SET_LOCKTAG_RELATION db 16384"
  by (simp add: SetLocktagRelationOid_def backend_of_def shared_1262_def)

lemma tag_1262: "SetLocktagRelationOid (backend_of b db lvl) 1262 = SET_LOCKTAG_RELATION InvalidOid 1262"
  by (simp add: SetLocktagRelationOid_def backend_of_def shared_1262_def)

lemma DoLockModesConflict_sym:
  "DoLockModesConflict mode1 mode2 = DoLockModesConflict mode2 mode1"
  by (auto simp: DoLockModesConflict_def LockConflicts_def lockmode_defs)

lemma ShareLock_conflicts:
  "DoLockModesConflict ShareLock m =
     (m \<in> {RowExclusiveLock, ShareUpdateExclusiveLock, ShareRowExclusiveLock, ExclusiveLock,
            AccessExclusiveLock})"
  by (simp add: DoLockModesConflict_def LockConflicts_def lockmode_defs)

lemma LockCheckConflicts_iff:
  "LockCheckConflicts c locktag lockmode s =
    (\<exists>b m. (b, locktag, m) \<in> set (holds s) \<and> b \<noteq> MyBackendId c \<and> DoLockModesConflict lockmode m)"
  by (auto simp: LockCheckConflicts_def list_ex_iff)

lemma held_in_holds:
  "0 < nLocks c locktag lockmode s \<Longrightarrow> (MyBackendId c, locktag, lockmode) \<in> set (holds s)"
  by (metis count_notin nLocks_def less_numeral_extra(3))

lemma LockAcquire_dontWait:
  "\<exists>res s'. LockAcquire c locktag lockmode sessionLock True s = Some (res, s')"
  by (simp add: LockAcquire_def)

lemma LockRelationOid_None:
  "(LockRelationOid c relid lockmode s = None) =
     (nLocks c (SetLocktagRelationOid c relid) lockmode s = 0
      \<and> LockCheckConflicts c (SetLocktagRelationOid c relid) lockmode s)"
  by (simp add: LockRelationOid_def LockAcquire_def)

lemma LockRelationOid_Some:
  "LockRelationOid c relid lockmode s = Some s' \<Longrightarrow>
     holds s' = (MyBackendId c, SetLocktagRelationOid c relid, lockmode) # holds s"
  by (auto simp: LockRelationOid_def LockAcquire_def split: if_splits)

lemma holds_UnlockRelationOid:
  "holds (UnlockRelationOid c relid lockmode s) =
     remove1 (MyBackendId c, SetLocktagRelationOid c relid, lockmode) (holds s)"
  by (simp add: UnlockRelationOid_def LockRelease_def nLocks_def remove1_idem count_list_0_iff)

lemma calls_on_append:
  "calls s' = calls s @ evs \<Longrightarrow> calls_on tag s s' = list_all (\<lambda>e. call_tag e = tag) evs"
  by (simp add: calls_on_def)

lemma calls_LockRelationOid:
  "LockRelationOid c relid lockmode s = Some s' \<Longrightarrow>
     \<exists>res. calls s' = calls s @
       [AcquireCall (MyBackendId c) (SetLocktagRelationOid c relid) lockmode False res]"
  by (auto simp: LockRelationOid_def LockAcquire_def split: if_splits)

lemma calls_UnlockRelationOid:
  "\<exists>ok. calls (UnlockRelationOid c relid lockmode s) = calls s @
     [ReleaseCall (MyBackendId c) (SetLocktagRelationOid c relid) lockmode ok]"
  by (auto simp: UnlockRelationOid_def LockRelease_def)

lemma acquire_modes_append: "acquire_modes (xs @ ys) = acquire_modes xs @ acquire_modes ys"
  by (induction xs rule: acquire_modes.induct) auto

lemma never_waits_append: "never_waits (xs @ ys) = (never_waits xs \<and> never_waits ys)"
  by (induction xs rule: never_waits.induct) auto

lemma balanced_append: "balanced xs \<Longrightarrow> balanced (xs @ ys) = balanced ys"
  by (induction xs rule: balanced.induct) auto

section \<open>The probes, one step at a time\<close>

text \<open>
  \<^verbatim>\<open>do_we_hold_the_lock\<close> always returns; it answers whether the backend's count for
  exactly this mode is positive, and it leaves the lock table as it found it.
\<close>

lemma do_we_hold_the_lock_eq:
  "do_we_hold_the_lock c relid lockmode s =
     Some (0 < nLocks c (SetLocktagRelationOid c relid) lockmode s,
           \<lparr>holds = holds s, calls = calls s @ probe_calls c relid lockmode s\<rparr>)"
  by (simp add: do_we_hold_the_lock_def LockAcquire_def LockRelease_def nLocks_def
      probe_calls_def Let_def)

lemma probe_calls_props:
  "balanced (probe_calls c relid lockmode s)"
  "never_waits (probe_calls c relid lockmode s)"
  "acquire_modes (probe_calls c relid lockmode s) = [lockmode]"
  "list_all (\<lambda>e. call_tag e = SetLocktagRelationOid c relid) (probe_calls c relid lockmode s)"
  by (simp_all add: probe_calls_def Let_def)

text \<open>
  The loop, entered at any mode: by induction along its own recursion.
\<close>

lemma loop_inv:
  "\<exists>evs. xact_bgw_conflicting_lock_exists_loop c relid lockmode s =
      Some ((\<exists>m. lockmode \<le> m \<and> m \<le> AccessExclusiveLock
                \<and> 0 < nLocks c (SetLocktagRelationOid c relid) m s),
            \<lparr>holds = holds s, calls = calls s @ evs\<rparr>)
    \<and> balanced evs \<and> never_waits evs \<and> distinct (acquire_modes evs)
    \<and> (\<forall>m \<in> set (acquire_modes evs). lockmode \<le> m \<and> m \<le> AccessExclusiveLock)
    \<and> list_all (\<lambda>e. call_tag e = SetLocktagRelationOid c relid) evs"
proof (induction c relid lockmode s rule: xact_bgw_conflicting_lock_exists_loop.induct)
  case (1 c relid lockmode s)
  let ?tag = "SetLocktagRelationOid c relid"
  let ?s1 = "\<lparr>holds = holds s, calls = calls s @ probe_calls c relid lockmode s\<rparr>"
  show ?case
  proof (cases "lockmode \<le> AccessExclusiveLock")
    case False
    then have "xact_bgw_conflicting_lock_exists_loop c relid lockmode s = Some (False, s)"
      by (simp add: xact_bgw_conflicting_lock_exists_loop.simps)
    moreover have "\<not> (\<exists>m. lockmode \<le> m \<and> m \<le> AccessExclusiveLock
                \<and> 0 < nLocks c ?tag m s)"
      using False by auto
    ultimately show ?thesis
      by (intro exI [of _ "[]"]) simp
  next
    case inrange: True
    show ?thesis
    proof (cases "0 < nLocks c ?tag lockmode s")
      case True
      then have "xact_bgw_conflicting_lock_exists_loop c relid lockmode s = Some (True, ?s1)"
        using inrange
        by (subst xact_bgw_conflicting_lock_exists_loop.simps)
           (simp add: do_we_hold_the_lock_eq)
      moreover have "\<exists>m. lockmode \<le> m \<and> m \<le> AccessExclusiveLock \<and> 0 < nLocks c ?tag m s"
        using True inrange by (intro exI [of _ lockmode]) simp
      ultimately show ?thesis
        using inrange
        by (intro exI [of _ "probe_calls c relid lockmode s"]) (simp add: probe_calls_props)
    next
      case False
      have step: "xact_bgw_conflicting_lock_exists_loop c relid lockmode s =
          xact_bgw_conflicting_lock_exists_loop c relid (lockmode + 1) ?s1"
        using inrange False
        by (subst xact_bgw_conflicting_lock_exists_loop.simps)
           (simp add: do_we_hold_the_lock_eq)
      have dwh: "do_we_hold_the_lock c relid lockmode s = Some (False, ?s1)"
        using False by (simp add: do_we_hold_the_lock_eq)
      from "1.IH" [OF inrange dwh refl]
      obtain evs where rec: "xact_bgw_conflicting_lock_exists_loop c relid (lockmode + 1) ?s1 =
          Some ((\<exists>m\<ge>lockmode + 1. m \<le> AccessExclusiveLock \<and> 0 < nLocks c ?tag m ?s1),
                \<lparr>holds = holds ?s1, calls = calls ?s1 @ evs\<rparr>)"
        and evs: "balanced evs" "never_waits evs" "distinct (acquire_modes evs)"
          "\<forall>m\<in>set (acquire_modes evs). lockmode + 1 \<le> m \<and> m \<le> AccessExclusiveLock"
          "list_all (\<lambda>e. call_tag e = ?tag) evs"
        by auto
      have same: "\<And>m. nLocks c ?tag m ?s1 = nLocks c ?tag m s"
        by (simp add: nLocks_def)
      have iff: "(\<exists>m\<ge>lockmode + 1. m \<le> AccessExclusiveLock \<and> 0 < nLocks c ?tag m ?s1) =
          (\<exists>m\<ge>lockmode. m \<le> AccessExclusiveLock \<and> 0 < nLocks c ?tag m s)"
      proof -
        have "\<And>m. (lockmode \<le> m \<and> 0 < nLocks c ?tag m s) = (lockmode + 1 \<le> m \<and> 0 < nLocks c ?tag m s)"
          using False by (metis add1_zle_eq order_le_less)
        then show ?thesis unfolding same by auto
      qed
      show ?thesis
        using step rec evs inrange unfolding iff
        by (intro exI [of _ "probe_calls c relid lockmode s @ evs"])
           (auto simp: probe_calls_props acquire_modes_append never_waits_append
              balanced_append)
    qed
  qed
qed

lemma xact_bgw_conflicting_lock_exists_eq:
  "\<exists>evs. xact_bgw_conflicting_lock_exists c relid s =
      Some ((\<exists>m. ShareUpdateExclusiveLock \<le> m \<and> m \<le> AccessExclusiveLock
                \<and> 0 < nLocks c (SetLocktagRelationOid c relid) m s),
            \<lparr>holds = holds s, calls = calls s @ evs\<rparr>)
    \<and> balanced evs \<and> never_waits evs \<and> distinct (acquire_modes evs)
    \<and> set (acquire_modes evs) \<subseteq> {ShareUpdateExclusiveLock..AccessExclusiveLock}
    \<and> list_all (\<lambda>e. call_tag e = SetLocktagRelationOid c relid) evs"
proof -
  from loop_inv [of c relid ShareUpdateExclusiveLock s]
  obtain evs where "xact_bgw_conflicting_lock_exists_loop c relid ShareUpdateExclusiveLock s =
      Some ((\<exists>m. ShareUpdateExclusiveLock \<le> m \<and> m \<le> AccessExclusiveLock
                \<and> 0 < nLocks c (SetLocktagRelationOid c relid) m s),
            \<lparr>holds = holds s, calls = calls s @ evs\<rparr>)"
    "balanced evs" "never_waits evs" "distinct (acquire_modes evs)"
    "\<forall>m \<in> set (acquire_modes evs). ShareUpdateExclusiveLock \<le> m \<and> m \<le> AccessExclusiveLock"
    "list_all (\<lambda>e. call_tag e = SetLocktagRelationOid c relid) evs"
    by blast
  then show ?thesis
    unfolding xact_bgw_conflicting_lock_exists_def
    by (intro exI [of _ evs]) auto
qed

lemma xact_is_table_being_modified_eq:
  "xact_is_table_being_modified c relid s =
     Some (nLocks c (SetLocktagRelationOid c relid) ExclusiveLock s = 0
             \<and> LockCheckConflicts c (SetLocktagRelationOid c relid) ExclusiveLock s,
           \<lparr>holds = holds s, calls = calls s @ probe_calls c relid ExclusiveLock s\<rparr>)"
  by (simp add: xact_is_table_being_modified_def ConditionalLockRelationOid_def
      UnlockRelationOid_def LockAcquire_def LockRelease_def nLocks_def probe_calls_def Let_def)

section \<open>Reachable lock tables\<close>

lemma compatible_iff:
  "compatible s = (\<forall>b1 t m1 b2 m2. (b1, t, m1) \<in> set (holds s) \<longrightarrow> (b2, t, m2) \<in> set (holds s)
      \<longrightarrow> b1 \<noteq> b2 \<longrightarrow> \<not> DoLockModesConflict m1 m2)"
  by (fastforce simp: compatible_def list_all_iff)

lemma compatible_LockAcquire:
  assumes "compatible s" and "LockAcquire c locktag lockmode sessionLock dontWait s = Some (res, s')"
  shows "compatible s'"
proof (cases "0 < nLocks c locktag lockmode s")
  case True
  then have "(MyBackendId c, locktag, lockmode) \<in> set (holds s)"
    by (metis count_notin nLocks_def less_numeral_extra(3))
  with assms True show ?thesis
    by (auto simp: LockAcquire_def compatible_iff)
next
  case False
  show ?thesis
  proof (cases "LockCheckConflicts c locktag lockmode s")
    case True
    with assms False show ?thesis
      by (auto simp: LockAcquire_def compatible_iff split: if_splits)
  next
    case noconf: False
    then have free: "\<And>b m. (b, locktag, m) \<in> set (holds s) \<Longrightarrow> b \<noteq> MyBackendId c \<Longrightarrow>
        \<not> DoLockModesConflict lockmode m \<and> \<not> DoLockModesConflict m lockmode"
      using DoLockModesConflict_sym by (auto simp: LockCheckConflicts_iff)
    from assms False noconf
    have s': "holds s' = (MyBackendId c, locktag, lockmode) # holds s"
      by (auto simp: LockAcquire_def)
    show ?thesis
      unfolding compatible_iff s'
      using assms(1) free by (auto simp: compatible_iff)
  qed
qed

lemma compatible_LockRelease:
  assumes "compatible s" and "LockRelease c locktag lockmode sessionLock s = (ok, s')"
  shows "compatible s'"
proof -
  from assms(2) have "set (holds s') \<subseteq> set (holds s)"
    using set_remove1_subset [of "(MyBackendId c, locktag, lockmode)" "holds s"]
    by (auto simp: LockRelease_def split: if_splits)
  with assms(1) show ?thesis
    unfolding compatible_iff by blast
qed

lemma reachable_compatible: "reachable s \<Longrightarrow> compatible s"
proof (induction rule: reachable.induct)
  case startup
  show ?case by (simp add: compatible_def lmgr_startup_def)
next
  case (acquire s c locktag lockmode sessionLock dontWait res s')
  then show ?case by (blast intro: compatible_LockAcquire)
next
  case (release s c locktag lockmode sessionLock ok s')
  then show ?case by (blast intro: compatible_LockRelease)
qed

lemma compatible_own_lock:
  assumes "compatible s" and "0 < nLocks c tag lockmode s"
  shows "LockCheckConflicts c tag lockmode s =
    list_ex (\<lambda>(b, t, m). b \<noteq> MyBackendId c \<and> t = tag \<and> DoLockModesConflict lockmode m \<and> False) (holds s)"
proof -
  have mem: "(MyBackendId c, tag, lockmode) \<in> set (holds s)"
  proof (rule ccontr)
    assume "(MyBackendId c, tag, lockmode) \<notin> set (holds s)"
    then have "count_list (holds s) (MyBackendId c, tag, lockmode) = 0"
      by (rule count_notin)
    with assms(2) show False by (simp add: nLocks_def)
  qed
  have "\<not> LockCheckConflicts c tag lockmode s"
  proof
    assume "LockCheckConflicts c tag lockmode s"
    then obtain b m where other: "(b, tag, m) \<in> set (holds s)" "b \<noteq> MyBackendId c"
      "DoLockModesConflict lockmode m"
      by (auto simp: LockCheckConflicts_def list_ex_iff)
    from assms(1) mem other show False
      by (fastforce simp: compatible_def list_all_iff)
  qed
  then show ?thesis by (simp add: list_ex_iff)
qed

text \<open>
  Every operation of \<^verbatim>\<open>xact_handling.c\<close> leads from a reachable lock table to a
  reachable one.
\<close>

lemma reachable_LockRelationOid:
  "reachable s \<Longrightarrow> LockRelationOid c relid lockmode s = Some s' \<Longrightarrow> reachable s'"
  by (auto simp: LockRelationOid_def split: option.splits intro: reachable.acquire)

lemma reachable_UnlockRelationOid:
  "reachable s \<Longrightarrow> reachable (UnlockRelationOid c relid lockmode s)"
  unfolding UnlockRelationOid_def
  by (metis reachable.release prod.collapse)

lemma reachable_do_we_hold_the_lock:
  assumes "reachable s" and "do_we_hold_the_lock c relid lockmode s = Some (b, s')"
  shows "reachable s'"
proof -
  let ?tag = "SetLocktagRelationOid c relid"
  obtain res s1 where acq: "LockAcquire c ?tag lockmode False True s = Some (res, s1)"
    using LockAcquire_dontWait by blast
  with assms(1) have r1: "reachable s1" by (rule reachable.acquire)
  then have r2: "reachable (snd (LockRelease c ?tag lockmode False s1))"
    by (metis reachable.release prod.collapse)
  from assms(2) acq r1 r2 show ?thesis
    by (cases res) (auto simp: do_we_hold_the_lock_def Let_def)
qed

lemma reachable_loop:
  "reachable s \<Longrightarrow> xact_bgw_conflicting_lock_exists_loop c relid lockmode s = Some (b, s') \<Longrightarrow>
     reachable s'"
proof (induction c relid lockmode s rule: xact_bgw_conflicting_lock_exists_loop.induct)
  case (1 c relid lockmode s)
  show ?case
  proof (cases "lockmode \<le> AccessExclusiveLock")
    case False
    with "1.prems" show ?thesis
      by (simp add: xact_bgw_conflicting_lock_exists_loop.simps)
  next
    case True
    obtain held s1 where dwh: "do_we_hold_the_lock c relid lockmode s = Some (held, s1)"
      by (auto simp: do_we_hold_the_lock_eq)
    with "1.prems"(1) have r1: "reachable s1"
      by (blast intro: reachable_do_we_hold_the_lock)
    show ?thesis
    proof (cases held)
      case True
      with "1.prems"(2) dwh \<open>lockmode \<le> AccessExclusiveLock\<close> r1 show ?thesis
        by (simp add: xact_bgw_conflicting_lock_exists_loop.simps [of c relid lockmode s])
    next
      case False
      with "1.prems"(2) dwh \<open>lockmode \<le> AccessExclusiveLock\<close>
      have "xact_bgw_conflicting_lock_exists_loop c relid (lockmode + 1) s1 = Some (b, s')"
        by (simp add: xact_bgw_conflicting_lock_exists_loop.simps [of c relid lockmode s])
      with "1.IH" [OF \<open>lockmode \<le> AccessExclusiveLock\<close> dwh refl _ r1] False
      show ?thesis by simp
    qed
  qed
qed

lemma reachable_xact_operations:
  assumes "reachable s"
  shows "xact_lock_partitioned_rel c relid s = Some s' \<Longrightarrow> reachable s'"
    and "reachable (xact_unlock_partitioned_rel c relid s)"
    and "xact_lock_rel_data c relid s = Some s' \<Longrightarrow> reachable s'"
    and "reachable (xact_unlock_rel_data c relid s)"
    and "xact_bgw_conflicting_lock_exists c relid s = Some (b, s') \<Longrightarrow> reachable s'"
    and "xact_is_table_being_modified c relid s = Some (b, s') \<Longrightarrow> reachable s'"
proof -
  show "xact_lock_partitioned_rel c relid s = Some s' \<Longrightarrow> reachable s'"
    using assms by (auto simp: xact_lock_partitioned_rel_def intro: reachable_LockRelationOid)
  show "reachable (xact_unlock_partitioned_rel c relid s)"
    using assms by (simp add: xact_unlock_partitioned_rel_def reachable_UnlockRelationOid)
  show "xact_lock_rel_data c relid s = Some s' \<Longrightarrow> reachable s'"
    using assms by (auto simp: xact_lock_rel_data_def intro: reachable_LockRelationOid)
  show "reachable (xact_unlock_rel_data c relid s)"
    using assms by (simp add: xact_unlock_rel_data_def reachable_UnlockRelationOid)
  show "xact_bgw_conflicting_lock_exists c relid s = Some (b, s') \<Longrightarrow> reachable s'"
    using assms by (auto simp: xact_bgw_conflicting_lock_exists_def intro: reachable_loop)
  show "xact_is_table_being_modified c relid s = Some (b, s') \<Longrightarrow> reachable s'"
  proof -
    assume run: "xact_is_table_being_modified c relid s = Some (b, s')"
    obtain res s1 where acq:
      "LockAcquire c (SetLocktagRelationOid c relid) ExclusiveLock False True s = Some (res, s1)"
      using LockAcquire_dontWait by blast
    with assms have r1: "reachable s1" by (rule reachable.acquire)
    then have "reachable (UnlockRelationOid c relid ExclusiveLock s1)"
      by (rule reachable_UnlockRelationOid)
    with run acq r1 show "reachable s'"
      by (auto simp: xact_is_table_being_modified_def ConditionalLockRelationOid_def
          split: if_splits)
  qed
qed

section \<open>The tag of every call\<close>

text \<open>
  Every call an operation of \<^verbatim>\<open>xact_handling.c\<close> makes to the lock manager names the
  tag \<^verbatim>\<open>SetLocktagRelationOid\<close> builds for the relation.
\<close>

lemma xact_operations_calls_on:
  "\<forall>s'. xact_lock_partitioned_rel c relid s = Some s' \<longrightarrow>
      calls_on (SetLocktagRelationOid c relid) s s'"
  "calls_on (SetLocktagRelationOid c relid) s (xact_unlock_partitioned_rel c relid s)"
  "\<forall>s'. xact_lock_rel_data c relid s = Some s' \<longrightarrow>
      calls_on (SetLocktagRelationOid c relid) s s'"
  "calls_on (SetLocktagRelationOid c relid) s (xact_unlock_rel_data c relid s)"
  "\<forall>b s'. xact_bgw_conflicting_lock_exists c relid s = Some (b, s') \<longrightarrow>
      calls_on (SetLocktagRelationOid c relid) s s'"
  "\<forall>b s'. xact_is_table_being_modified c relid s = Some (b, s') \<longrightarrow>
      calls_on (SetLocktagRelationOid c relid) s s'"
proof -
  let ?tag = "SetLocktagRelationOid c relid"
  have lock: "calls_on ?tag s s'" if "LockRelationOid c relid lockmode s = Some s'"
    for lockmode s'
    using calls_LockRelationOid [OF that] by (auto simp: calls_on_append)
  have unlock: "calls_on ?tag s (UnlockRelationOid c relid lockmode s)" for lockmode
    using calls_UnlockRelationOid [of c relid lockmode s] by (auto simp: calls_on_append)
  show "\<forall>s'. xact_lock_partitioned_rel c relid s = Some s' \<longrightarrow> calls_on ?tag s s'"
    by (simp add: xact_lock_partitioned_rel_def lock)
  show "calls_on ?tag s (xact_unlock_partitioned_rel c relid s)"
    by (simp add: xact_unlock_partitioned_rel_def unlock)
  show "\<forall>s'. xact_lock_rel_data c relid s = Some s' \<longrightarrow> calls_on ?tag s s'"
    by (simp add: xact_lock_rel_data_def lock)
  show "calls_on ?tag s (xact_unlock_rel_data c relid s)"
    by (simp add: xact_unlock_rel_data_def unlock)
  show "\<forall>b s'. xact_bgw_conflicting_lock_exists c relid s = Some (b, s') \<longrightarrow> calls_on ?tag s s'"
    using xact_bgw_conflicting_lock_exists_eq [of c relid s]
    by (auto simp: calls_on_append)
  show "\<forall>b s'. xact_is_table_being_modified c relid s = Some (b, s') \<longrightarrow> calls_on ?tag s s'"
    by (simp add: xact_is_table_being_modified_eq calls_on_append probe_calls_props)
qed

section \<open>The claims about xact_handling.c\<close>

text \<open>
  C1. For every relation identifier and every lock table,
  \<^verbatim>\<open>xact_bgw_conflicting_lock_exists\<close> returns, and what it returns is true exactly when
  the calling backend already holds a lock on the relation's tag at some mode from
  \<^verbatim>\<open>ShareUpdateExclusiveLock\<close> up to and including \<^verbatim>\<open>AccessExclusiveLock\<close>; it is false
  exactly when it holds none of these.
\<close>

theorem xact_bgw_conflicting_lock_exists_iff:
  "map_option fst (xact_bgw_conflicting_lock_exists c relid s) =
     Some (\<exists>m. ShareUpdateExclusiveLock \<le> m \<and> m \<le> AccessExclusiveLock
              \<and> 0 < nLocks c (SetLocktagRelationOid c relid) m s)"
  using xact_bgw_conflicting_lock_exists_eq [of c relid s] by auto

theorem xact_bgw_conflicting_lock_exists_iff_witness:
  "map_option fst (xact_bgw_conflicting_lock_exists (backend_of 1 5 XACT_READ_COMMITTED) 16384
      \<lparr>holds = [(1, SetLocktagRelationOid (backend_of 1 5 XACT_READ_COMMITTED) 16384,
                  ShareRowExclusiveLock)], calls = []\<rparr>) = Some True
   \<and> map_option fst (xact_bgw_conflicting_lock_exists (backend_of 1 5 XACT_READ_COMMITTED) 16384
      \<lparr>holds = [(1, SetLocktagRelationOid (backend_of 1 5 XACT_READ_COMMITTED) 16384,
                  RowExclusiveLock)], calls = []\<rparr>) = Some False"
proof -
  let ?c = "backend_of 1 5 XACT_READ_COMMITTED"
  let ?tag = "SetLocktagRelationOid ?c 16384"
  have "\<exists>m. ShareUpdateExclusiveLock \<le> m \<and> m \<le> AccessExclusiveLock
      \<and> 0 < nLocks ?c ?tag m \<lparr>holds = [(1, ?tag, ShareRowExclusiveLock)], calls = []\<rparr>"
    by (intro exI [of _ ShareRowExclusiveLock])
       (simp add: nLocks_def backend_of_def lockmode_defs)
  then have held: "(\<exists>m. ShareUpdateExclusiveLock \<le> m \<and> m \<le> AccessExclusiveLock
      \<and> 0 < nLocks ?c ?tag m \<lparr>holds = [(1, ?tag, ShareRowExclusiveLock)], calls = []\<rparr>)
      = True"
    by simp
  have "\<not> (\<exists>m. ShareUpdateExclusiveLock \<le> m \<and> m \<le> AccessExclusiveLock
      \<and> 0 < nLocks ?c ?tag m \<lparr>holds = [(1, ?tag, RowExclusiveLock)], calls = []\<rparr>)"
    by (auto simp: nLocks_def backend_of_def lockmode_defs split: if_splits)
  then have not_held: "(\<exists>m. ShareUpdateExclusiveLock \<le> m \<and> m \<le> AccessExclusiveLock
      \<and> 0 < nLocks ?c ?tag m \<lparr>holds = [(1, ?tag, RowExclusiveLock)], calls = []\<rparr>)
      = False"
    by simp
  show ?thesis
    unfolding xact_bgw_conflicting_lock_exists_iff held not_held by simp
qed

text \<open>
  C2. For every relation identifier and every lock table (so after any sequence of
  earlier acquisitions), \<^verbatim>\<open>xact_bgw_conflicting_lock_exists\<close> leaves the table of held
  locks, and with it every reference count of every backend, exactly as it was. The
  calls it made are balanced: each granted conditional acquire, already held or new, is
  followed by exactly one release, and a refused one by none.
\<close>

theorem xact_bgw_conflicting_lock_exists_frame:
  "\<exists>b s' evs. xact_bgw_conflicting_lock_exists c relid s = Some (b, s')
     \<and> holds s' = holds s
     \<and> nLocks c' tag' mode' s' = nLocks c' tag' mode' s
     \<and> calls s' = calls s @ evs \<and> balanced evs"
  using xact_bgw_conflicting_lock_exists_eq [of c relid s]
  by (auto simp: nLocks_def)

theorem xact_bgw_conflicting_lock_exists_frame_witness:
  "\<exists>b s'. xact_bgw_conflicting_lock_exists (backend_of 1 5 XACT_READ_COMMITTED) 16384
       \<lparr>holds = [(1, SET_LOCKTAG_RELATION 5 16384, ShareRowExclusiveLock),
                  (2, SET_LOCKTAG_RELATION 5 16384, RowShareLock),
                  (1, SET_LOCKTAG_RELATION 5 16384, ShareRowExclusiveLock)],
        calls = []\<rparr> = Some (b, s')
     \<and> holds s' = [(1, SET_LOCKTAG_RELATION 5 16384, ShareRowExclusiveLock),
                  (2, SET_LOCKTAG_RELATION 5 16384, RowShareLock),
                  (1, SET_LOCKTAG_RELATION 5 16384, ShareRowExclusiveLock)]
     \<and> nLocks (backend_of 1 5 XACT_READ_COMMITTED) (SET_LOCKTAG_RELATION 5 16384)
           ShareRowExclusiveLock s' = 2
     \<and> balanced (calls s')"
proof -
  let ?c = "backend_of 1 5 XACT_READ_COMMITTED"
  let ?s = "\<lparr>holds = [(1, SET_LOCKTAG_RELATION 5 16384, ShareRowExclusiveLock),
                  (2, SET_LOCKTAG_RELATION 5 16384, RowShareLock),
                  (1, SET_LOCKTAG_RELATION 5 16384, ShareRowExclusiveLock)],
        calls = []\<rparr>"
  from xact_bgw_conflicting_lock_exists_frame
    [of ?c 16384 ?s ?c "SET_LOCKTAG_RELATION 5 16384" ShareRowExclusiveLock]
  obtain b s' evs where run: "xact_bgw_conflicting_lock_exists ?c 16384 ?s = Some (b, s')"
    "holds s' = holds ?s"
    "nLocks ?c (SET_LOCKTAG_RELATION 5 16384) ShareRowExclusiveLock s' =
       nLocks ?c (SET_LOCKTAG_RELATION 5 16384) ShareRowExclusiveLock ?s"
    "calls s' = calls ?s @ evs" "balanced evs"
    by blast
  have "nLocks ?c (SET_LOCKTAG_RELATION 5 16384) ShareRowExclusiveLock ?s = 2"
    by (simp add: nLocks_def backend_of_sel SET_LOCKTAG_RELATION_def lockmode_defs)
  with run show ?thesis by simp
qed

text \<open>
  C5. \<^verbatim>\<open>xact_is_table_being_modified\<close> makes exactly one acquire call, conditional and
  for \<^verbatim>\<open>ExclusiveLock\<close>. If it is granted, the lock is released at once and the answer
  is false; if it is refused, nothing is released and the answer is true. Either way the
  table of held locks is unchanged. In a lock table in which no two backends hold
  conflicting locks, the answer is true exactly when another backend holds a lock on the
  relation that conflicts with \<^verbatim>\<open>ExclusiveLock\<close>.
\<close>

theorem xact_is_table_being_modified_probe:
  "\<exists>b s' r evs. xact_is_table_being_modified c relid s = Some (b, s')
     \<and> holds s' = holds s
     \<and> calls s' = calls s @
         AcquireCall (MyBackendId c) (SetLocktagRelationOid c relid) ExclusiveLock True r # evs
     \<and> b = (r = LOCKACQUIRE_NOT_AVAIL)
     \<and> evs = (if r = LOCKACQUIRE_NOT_AVAIL then []
              else [ReleaseCall (MyBackendId c) (SetLocktagRelationOid c relid) ExclusiveLock True])
     \<and> (compatible s \<longrightarrow> b = LockCheckConflicts c (SetLocktagRelationOid c relid) ExclusiveLock s)"
proof (cases "0 < nLocks c (SetLocktagRelationOid c relid) ExclusiveLock s")
  case True
  then have "compatible s \<Longrightarrow> \<not> LockCheckConflicts c (SetLocktagRelationOid c relid) ExclusiveLock s"
    using compatible_own_lock [of s c "SetLocktagRelationOid c relid" ExclusiveLock]
    by (simp add: list_ex_iff)
  with True show ?thesis
    by (auto simp: xact_is_table_being_modified_eq probe_calls_def Let_def)
next
  case False
  then show ?thesis
    by (auto simp: xact_is_table_being_modified_eq probe_calls_def Let_def)
qed

theorem xact_is_table_being_modified_probe_witness:
  "compatible \<lparr>holds = [(2, SET_LOCKTAG_RELATION 5 16384, RowExclusiveLock)], calls = []\<rparr>
   \<and> (\<exists>s'. xact_is_table_being_modified (backend_of 1 5 XACT_READ_COMMITTED) 16384
          \<lparr>holds = [(2, SET_LOCKTAG_RELATION 5 16384, RowExclusiveLock)], calls = []\<rparr>
        = Some (True, s')
        \<and> holds s' = [(2, SET_LOCKTAG_RELATION 5 16384, RowExclusiveLock)])
   \<and> compatible \<lparr>holds = [(2, SET_LOCKTAG_RELATION 5 16384, AccessShareLock)], calls = []\<rparr>
   \<and> (\<exists>s'. xact_is_table_being_modified (backend_of 1 5 XACT_READ_COMMITTED) 16384
          \<lparr>holds = [(2, SET_LOCKTAG_RELATION 5 16384, AccessShareLock)], calls = []\<rparr>
        = Some (False, s')
        \<and> holds s' = [(2, SET_LOCKTAG_RELATION 5 16384, AccessShareLock)])"
proof -
  let ?c = "backend_of 1 5 XACT_READ_COMMITTED"
  let ?w = "\<lparr>holds = [(2, SET_LOCKTAG_RELATION 5 16384, RowExclusiveLock)], calls = []\<rparr>"
  let ?r = "\<lparr>holds = [(2, SET_LOCKTAG_RELATION 5 16384, AccessShareLock)], calls = []\<rparr>"
  have cw: "compatible ?w" and cr: "compatible ?r"
    by (simp_all add: compatible_def)
  have kw: "LockCheckConflicts ?c (SetLocktagRelationOid ?c 16384) ExclusiveLock ?w"
    and kr: "\<not> LockCheckConflicts ?c (SetLocktagRelationOid ?c 16384) ExclusiveLock ?r"
    by (simp_all add: LockCheckConflicts_def tag_16384 backend_of_sel DoLockModesConflict_def
        LockConflicts_def lockmode_defs)
  from xact_is_table_being_modified_probe [of ?c 16384 ?w] cw kw
  have w: "\<exists>s'. xact_is_table_being_modified ?c 16384 ?w = Some (True, s') \<and> holds s' = holds ?w"
    by auto
  from xact_is_table_being_modified_probe [of ?c 16384 ?r] cr kr
  have r: "\<exists>s'. xact_is_table_being_modified ?c 16384 ?r = Some (False, s') \<and> holds s' = holds ?r"
    by auto
  from cw cr w r show ?thesis by simp
qed

text \<open>
  C8. In every lock table both probes return: the caller is never suspended. Every
  acquire call they make is made with \<^verbatim>\<open>dontWait\<close>; the loop of
  \<^verbatim>\<open>xact_bgw_conflicting_lock_exists\<close> asks for no mode twice and only for modes from
  \<^verbatim>\<open>ShareUpdateExclusiveLock\<close> to \<^verbatim>\<open>AccessExclusiveLock\<close>, so at most five times, and
  \<^verbatim>\<open>xact_is_table_being_modified\<close> asks once.
\<close>

theorem probes_never_suspend:
  "(\<exists>b s' evs. xact_bgw_conflicting_lock_exists c relid s = Some (b, s')
      \<and> calls s' = calls s @ evs \<and> never_waits evs \<and> distinct (acquire_modes evs)
      \<and> set (acquire_modes evs) \<subseteq> {ShareUpdateExclusiveLock..AccessExclusiveLock}
      \<and> length (acquire_modes evs) \<le> 5)
   \<and> (\<exists>b s' evs. xact_is_table_being_modified c relid s = Some (b, s')
      \<and> calls s' = calls s @ evs \<and> never_waits evs \<and> acquire_modes evs = [ExclusiveLock])"
proof
  from xact_bgw_conflicting_lock_exists_eq [of c relid s]
  obtain b s' evs where run: "xact_bgw_conflicting_lock_exists c relid s = Some (b, s')"
    "calls s' = calls s @ evs" "never_waits evs" "distinct (acquire_modes evs)"
    and sub: "set (acquire_modes evs) \<subseteq> {ShareUpdateExclusiveLock..AccessExclusiveLock}"
    by fastforce
  have "length (acquire_modes evs) = card (set (acquire_modes evs))"
    using run(4) by (simp add: distinct_card)
  also have "\<dots> \<le> card {ShareUpdateExclusiveLock..AccessExclusiveLock}"
    using sub by (intro card_mono) simp_all
  also have "\<dots> = 5"
    by (simp add: lockmode_defs)
  finally have "length (acquire_modes evs) \<le> 5" .
  with run sub show "\<exists>b s' evs. xact_bgw_conflicting_lock_exists c relid s = Some (b, s')
      \<and> calls s' = calls s @ evs \<and> never_waits evs \<and> distinct (acquire_modes evs)
      \<and> set (acquire_modes evs) \<subseteq> {ShareUpdateExclusiveLock..AccessExclusiveLock}
      \<and> length (acquire_modes evs) \<le> 5"
    by blast
next
  show "\<exists>b s' evs. xact_is_table_being_modified c relid s = Some (b, s')
      \<and> calls s' = calls s @ evs \<and> never_waits evs \<and> acquire_modes evs = [ExclusiveLock]"
    by (simp add: xact_is_table_being_modified_eq probe_calls_props)
qed

text \<open>
  Against a concurrent \<^verbatim>\<open>AccessExclusiveLock\<close> both probes return, where the waiting
  \<^verbatim>\<open>xact_lock_partitioned_rel\<close> is suspended.
\<close>

theorem probes_never_suspend_witness:
  "xact_bgw_conflicting_lock_exists (backend_of 1 5 XACT_READ_COMMITTED) 16384
      \<lparr>holds = [(2, SET_LOCKTAG_RELATION 5 16384, AccessExclusiveLock)], calls = []\<rparr> \<noteq> None
   \<and> xact_is_table_being_modified (backend_of 1 5 XACT_READ_COMMITTED) 16384
      \<lparr>holds = [(2, SET_LOCKTAG_RELATION 5 16384, AccessExclusiveLock)], calls = []\<rparr> \<noteq> None
   \<and> xact_lock_partitioned_rel (backend_of 1 5 XACT_READ_COMMITTED) 16384
      \<lparr>holds = [(2, SET_LOCKTAG_RELATION 5 16384, AccessExclusiveLock)], calls = []\<rparr> = None"
proof -
  let ?c = "backend_of 1 5 XACT_READ_COMMITTED"
  let ?s = "\<lparr>holds = [(2, SET_LOCKTAG_RELATION 5 16384, AccessExclusiveLock)], calls = []\<rparr>"
  have "xact_lock_partitioned_rel ?c 16384 ?s = None"
    by (simp add: xact_lock_partitioned_rel_def LockRelationOid_def LockAcquire_def tag_16384
        nLocks_def LockCheckConflicts_def backend_of_sel DoLockModesConflict_def
        LockConflicts_def lockmode_defs)
  with probes_never_suspend [of ?c 16384 ?s] show ?thesis by auto
qed

text \<open>
  C7. \<^verbatim>\<open>ShareUpdateExclusiveLock\<close>, the mode \<^verbatim>\<open>xact_lock_partitioned_rel\<close> acquires,
  conflicts with itself and not with \<^verbatim>\<open>AccessShareLock\<close>, the mode of ordinary reads.
  In every reachable lock table at most one backend holds the partition-edit lock on a
  relation (a relation being what one lock tag names: a database and a relation
  identifier), and a second backend that asks for it is suspended, while a reader's
  request is granted as long as the partition-edit lock is the only mode held on the
  relation.
\<close>

theorem partition_edit_lock_exclusive:
  "DoLockModesConflict ShareUpdateExclusiveLock ShareUpdateExclusiveLock
   \<and> \<not> DoLockModesConflict ShareUpdateExclusiveLock AccessShareLock
   \<and> \<not> DoLockModesConflict AccessShareLock ShareUpdateExclusiveLock
   \<and> (\<forall>s'. xact_lock_partitioned_rel c1 relid s = Some s' \<longrightarrow>
         holds s' =
           (MyBackendId c1, SetLocktagRelationOid c1 relid, ShareUpdateExclusiveLock) # holds s)
   \<and> (reachable s
        \<and> SetLocktagRelationOid c1 relid = SetLocktagRelationOid c2 relid
        \<and> 0 < nLocks c1 (SetLocktagRelationOid c1 relid) ShareUpdateExclusiveLock s
        \<and> 0 < nLocks c2 (SetLocktagRelationOid c2 relid) ShareUpdateExclusiveLock s
      \<longrightarrow> MyBackendId c1 = MyBackendId c2)
   \<and> (reachable s
        \<and> SetLocktagRelationOid c1 relid = SetLocktagRelationOid c2 relid
        \<and> MyBackendId c1 \<noteq> MyBackendId c2
        \<and> 0 < nLocks c2 (SetLocktagRelationOid c2 relid) ShareUpdateExclusiveLock s
      \<longrightarrow> xact_lock_partitioned_rel c1 relid s = None)
   \<and> (list_all (\<lambda>(b, t, m). t = SetLocktagRelationOid c1 relid \<longrightarrow> m = ShareUpdateExclusiveLock)
          (holds s)
      \<longrightarrow> LockRelationOid c1 relid AccessShareLock s \<noteq> None)"
proof -
  let ?t1 = "SetLocktagRelationOid c1 relid" and ?t2 = "SetLocktagRelationOid c2 relid"
  have self: "DoLockModesConflict ShareUpdateExclusiveLock ShareUpdateExclusiveLock"
    by (simp add: DoLockModesConflict_def LockConflicts_def lockmode_defs)
  have reads: "\<not> DoLockModesConflict ShareUpdateExclusiveLock AccessShareLock"
    "\<not> DoLockModesConflict AccessShareLock ShareUpdateExclusiveLock"
    by (simp_all add: DoLockModesConflict_def LockConflicts_def lockmode_defs)
  have takes: "\<forall>s'. xact_lock_partitioned_rel c1 relid s = Some s' \<longrightarrow>
         holds s' = (MyBackendId c1, ?t1, ShareUpdateExclusiveLock) # holds s"
    by (simp add: xact_lock_partitioned_rel_def LockRelationOid_Some)
  have excl: "MyBackendId c1 = MyBackendId c2"
    if "reachable s" "?t1 = ?t2" "0 < nLocks c1 ?t1 ShareUpdateExclusiveLock s"
      "0 < nLocks c2 ?t2 ShareUpdateExclusiveLock s"
  proof (rule ccontr)
    assume diff: "MyBackendId c1 \<noteq> MyBackendId c2"
    from that(3) have h1: "(MyBackendId c1, ?t1, ShareUpdateExclusiveLock) \<in> set (holds s)"
      by (rule held_in_holds)
    from that(4) that(2) have h2: "(MyBackendId c2, ?t1, ShareUpdateExclusiveLock) \<in> set (holds s)"
      by (simp add: held_in_holds)
    from reachable_compatible [OF that(1)] h1 h2 diff self show False
      unfolding compatible_iff by blast
  qed
  have waits: "xact_lock_partitioned_rel c1 relid s = None"
    if "reachable s" "?t1 = ?t2" "MyBackendId c1 \<noteq> MyBackendId c2"
      "0 < nLocks c2 ?t2 ShareUpdateExclusiveLock s"
  proof -
    from that(4) that(2) have h2: "(MyBackendId c2, ?t1, ShareUpdateExclusiveLock) \<in> set (holds s)"
      by (simp add: held_in_holds)
    have "nLocks c1 ?t1 ShareUpdateExclusiveLock s = 0"
      using excl [OF that(1) that(2) _ that(4)] that(3) by auto
    moreover have "LockCheckConflicts c1 ?t1 ShareUpdateExclusiveLock s"
      unfolding LockCheckConflicts_iff using h2 that(3) self by metis
    ultimately show ?thesis
      by (simp add: xact_lock_partitioned_rel_def LockRelationOid_None)
  qed
  have readers: "LockRelationOid c1 relid AccessShareLock s \<noteq> None"
    if "list_all (\<lambda>(b, t, m). t = ?t1 \<longrightarrow> m = ShareUpdateExclusiveLock) (holds s)"
  proof -
    from that have "\<And>b m. (b, ?t1, m) \<in> set (holds s) \<Longrightarrow> m = ShareUpdateExclusiveLock"
      by (auto simp: list_all_iff)
    with reads(2) have "\<not> LockCheckConflicts c1 ?t1 AccessShareLock s"
      unfolding LockCheckConflicts_iff by blast
    then show ?thesis by (simp add: LockRelationOid_None)
  qed
  from self reads takes excl waits readers show ?thesis by blast
qed

theorem partition_edit_lock_exclusive_witness:
  "reachable \<lparr>holds = [(1, SET_LOCKTAG_RELATION 5 16384, ShareUpdateExclusiveLock)],
              calls = [AcquireCall 1 (SET_LOCKTAG_RELATION 5 16384) ShareUpdateExclusiveLock False
                         LOCKACQUIRE_OK]\<rparr>
   \<and> SetLocktagRelationOid (backend_of 2 5 XACT_READ_COMMITTED) 16384 =
       SetLocktagRelationOid (backend_of 1 5 XACT_READ_COMMITTED) 16384
   \<and> MyBackendId (backend_of 2 5 XACT_READ_COMMITTED) \<noteq> MyBackendId (backend_of 1 5 XACT_READ_COMMITTED)
   \<and> xact_lock_partitioned_rel (backend_of 2 5 XACT_READ_COMMITTED) 16384
       \<lparr>holds = [(1, SET_LOCKTAG_RELATION 5 16384, ShareUpdateExclusiveLock)],
        calls = [AcquireCall 1 (SET_LOCKTAG_RELATION 5 16384) ShareUpdateExclusiveLock False
                   LOCKACQUIRE_OK]\<rparr> = None
   \<and> LockRelationOid (backend_of 2 5 XACT_READ_COMMITTED) 16384 AccessShareLock
       \<lparr>holds = [(1, SET_LOCKTAG_RELATION 5 16384, ShareUpdateExclusiveLock)],
        calls = [AcquireCall 1 (SET_LOCKTAG_RELATION 5 16384) ShareUpdateExclusiveLock False
                   LOCKACQUIRE_OK]\<rparr> \<noteq> None"
proof -
  let ?c1 = "backend_of 1 5 XACT_READ_COMMITTED" and ?c2 = "backend_of 2 5 XACT_READ_COMMITTED"
  let ?s1 = "\<lparr>holds = [(1, SET_LOCKTAG_RELATION 5 16384, ShareUpdateExclusiveLock)],
              calls = [AcquireCall 1 (SET_LOCKTAG_RELATION 5 16384) ShareUpdateExclusiveLock False
                         LOCKACQUIRE_OK]\<rparr>"
  have "xact_lock_partitioned_rel ?c1 16384 lmgr_startup = Some ?s1"
    by (simp add: xact_lock_partitioned_rel_def LockRelationOid_def LockAcquire_def tag_16384
        nLocks_def LockCheckConflicts_def lmgr_startup_def backend_of_sel)
  then have r: "reachable ?s1"
    using reachable_xact_operations(1) [OF reachable.startup] by blast
  have t: "SetLocktagRelationOid ?c2 16384 = SetLocktagRelationOid ?c1 16384"
    by (simp add: tag_16384)
  have d: "MyBackendId ?c2 \<noteq> MyBackendId ?c1"
    by (simp add: backend_of_sel)
  have h: "0 < nLocks ?c1 (SetLocktagRelationOid ?c1 16384) ShareUpdateExclusiveLock ?s1"
    by (simp add: nLocks_def tag_16384 backend_of_sel)
  have o: "list_all (\<lambda>(b, t, m). t = SetLocktagRelationOid ?c2 16384 \<longrightarrow>
      m = ShareUpdateExclusiveLock) (holds ?s1)"
    by simp
  from partition_edit_lock_exclusive [of ?c2 16384 ?s1 ?c1] r t d h o
  have "xact_lock_partitioned_rel ?c2 16384 ?s1 = None"
    and "LockRelationOid ?c2 16384 AccessShareLock ?s1 \<noteq> None"
    by blast+
  with r t d show ?thesis by blast
qed

text \<open>
  C4, as stated: the mode \<^verbatim>\<open>xact_lock_rel_data\<close> acquires does not conflict with the
  mode of concurrent row-level writers. It does: once another backend has been granted
  \<^verbatim>\<open>RowExclusiveLock\<close> on the relation, the mode INSERT, UPDATE and DELETE take,
  \<^verbatim>\<open>xact_lock_rel_data\<close> is suspended.
\<close>

theorem xact_lock_rel_data_counterexample:
  "LockAcquire (backend_of 2 5 XACT_READ_COMMITTED) (SET_LOCKTAG_RELATION 5 16384)
      RowExclusiveLock False False lmgr_startup =
     Some (LOCKACQUIRE_OK,
       \<lparr>holds = [(2, SET_LOCKTAG_RELATION 5 16384, RowExclusiveLock)],
        calls = [AcquireCall 2 (SET_LOCKTAG_RELATION 5 16384) RowExclusiveLock False
                   LOCKACQUIRE_OK]\<rparr>)
   \<and> xact_lock_rel_data (backend_of 1 5 XACT_READ_COMMITTED) 16384
       \<lparr>holds = [(2, SET_LOCKTAG_RELATION 5 16384, RowExclusiveLock)],
        calls = [AcquireCall 2 (SET_LOCKTAG_RELATION 5 16384) RowExclusiveLock False
                   LOCKACQUIRE_OK]\<rparr> = None"
  by (simp add: xact_lock_rel_data_def LockRelationOid_def LockAcquire_def tag_16384
      nLocks_def LockCheckConflicts_def lmgr_startup_def backend_of_sel
      DoLockModesConflict_def LockConflicts_def lockmode_defs)

text \<open>
  C4, amended: \<^verbatim>\<open>xact_lock_rel_data\<close> acquires, and \<^verbatim>\<open>xact_unlock_rel_data\<close> releases,
  one reference of \<^verbatim>\<open>ShareLock\<close>. A backend that does not hold it yet is made to wait
  exactly when another backend holds, on the same relation, the mode of an exclusive
  structural change (\<^verbatim>\<open>AccessExclusiveLock\<close>), the mode of row-level writers
  (\<^verbatim>\<open>RowExclusiveLock\<close>), or one of \<^verbatim>\<open>ShareUpdateExclusiveLock\<close>,
  \<^verbatim>\<open>ShareRowExclusiveLock\<close>, \<^verbatim>\<open>ExclusiveLock\<close>; readers and other holders of
  \<^verbatim>\<open>ShareLock\<close> do not make it wait.
\<close>

theorem xact_lock_rel_data_conflicts:
  "(xact_lock_rel_data c relid s = None) =
     (nLocks c (SetLocktagRelationOid c relid) ShareLock s = 0
      \<and> (\<exists>b m. (b, SetLocktagRelationOid c relid, m) \<in> set (holds s) \<and> b \<noteq> MyBackendId c
            \<and> m \<in> {RowExclusiveLock, ShareUpdateExclusiveLock, ShareRowExclusiveLock,
                    ExclusiveLock, AccessExclusiveLock}))
   \<and> (\<forall>s'. xact_lock_rel_data c relid s = Some s' \<longrightarrow>
         holds s' = (MyBackendId c, SetLocktagRelationOid c relid, ShareLock) # holds s)
   \<and> holds (xact_unlock_rel_data c relid s) =
       remove1 (MyBackendId c, SetLocktagRelationOid c relid, ShareLock) (holds s)"
  unfolding xact_lock_rel_data_def xact_unlock_rel_data_def LockRelationOid_None
    LockCheckConflicts_iff ShareLock_conflicts holds_UnlockRelationOid
  using LockRelationOid_Some by blast

theorem xact_lock_rel_data_conflicts_witness:
  "xact_lock_rel_data (backend_of 1 5 XACT_READ_COMMITTED) 16384
      \<lparr>holds = [(2, SET_LOCKTAG_RELATION 5 16384, AccessExclusiveLock)], calls = []\<rparr> = None
   \<and> xact_lock_rel_data (backend_of 1 5 XACT_READ_COMMITTED) 16384
      \<lparr>holds = [(2, SET_LOCKTAG_RELATION 5 16384, RowExclusiveLock)], calls = []\<rparr> = None
   \<and> xact_lock_rel_data (backend_of 1 5 XACT_READ_COMMITTED) 16384
      \<lparr>holds = [(2, SET_LOCKTAG_RELATION 5 16384, ShareLock),
                 (3, SET_LOCKTAG_RELATION 5 16384, AccessShareLock)], calls = []\<rparr> \<noteq> None"
  unfolding xact_lock_rel_data_conflicts [THEN conjunct1]
  by (auto simp: tag_16384 nLocks_def backend_of_sel lockmode_defs)

text \<open>
  C10. The tag \<^verbatim>\<open>SetLocktagRelationOid\<close> builds is the relation tag of the invalid
  (zero) database identifier when the relation is shared and of the session's own
  database otherwise, and every call a lock or probe operation makes to the lock manager
  names this tag. So two backends connected to different databases name the same
  lock exactly when the relation is shared: after the first has taken the partition-edit
  lock in an empty lock table, the second is suspended on it, and its probe answers
  true, exactly for a shared relation.
\<close>

theorem SetLocktagRelationOid_database:
  "SetLocktagRelationOid c relid =
     SET_LOCKTAG_RELATION (if IsSharedRelation c relid then InvalidOid else MyDatabaseId c) relid
   \<and> locktag_field1 (SetLocktagRelationOid c relid) =
       (if IsSharedRelation c relid then InvalidOid else MyDatabaseId c)
   \<and> locktag_field2 (SetLocktagRelationOid c relid) = relid
   \<and> (\<forall>s'. xact_lock_partitioned_rel c relid s = Some s' \<longrightarrow>
         calls_on (SetLocktagRelationOid c relid) s s')
   \<and> calls_on (SetLocktagRelationOid c relid) s (xact_unlock_partitioned_rel c relid s)
   \<and> (\<forall>s'. xact_lock_rel_data c relid s = Some s' \<longrightarrow>
         calls_on (SetLocktagRelationOid c relid) s s')
   \<and> calls_on (SetLocktagRelationOid c relid) s (xact_unlock_rel_data c relid s)
   \<and> (\<forall>b s'. xact_bgw_conflicting_lock_exists c relid s = Some (b, s') \<longrightarrow>
         calls_on (SetLocktagRelationOid c relid) s s')
   \<and> (\<forall>b s'. xact_is_table_being_modified c relid s = Some (b, s') \<longrightarrow>
         calls_on (SetLocktagRelationOid c relid) s s')
   \<and> (IsSharedRelation c1 = IsSharedRelation c2 \<and> MyDatabaseId c1 \<noteq> MyDatabaseId c2 \<longrightarrow>
        (SetLocktagRelationOid c1 relid = SetLocktagRelationOid c2 relid)
          = IsSharedRelation c1 relid)
   \<and> (IsSharedRelation c1 = IsSharedRelation c2 \<and> MyDatabaseId c1 \<noteq> MyDatabaseId c2
        \<and> MyBackendId c1 \<noteq> MyBackendId c2
        \<and> xact_lock_partitioned_rel c1 relid lmgr_startup = Some s1 \<longrightarrow>
        (xact_lock_partitioned_rel c2 relid s1 = None) = IsSharedRelation c1 relid
        \<and> map_option fst (xact_is_table_being_modified c2 relid s1)
            = Some (IsSharedRelation c1 relid))"
proof -
  have tag: "\<And>c. SetLocktagRelationOid c relid =
     SET_LOCKTAG_RELATION (if IsSharedRelation c relid then InvalidOid else MyDatabaseId c) relid"
    by (simp add: SetLocktagRelationOid_def Let_def)
  have same: "(SetLocktagRelationOid c1 relid = SetLocktagRelationOid c2 relid)
      = IsSharedRelation c1 relid"
    if "IsSharedRelation c1 = IsSharedRelation c2" "MyDatabaseId c1 \<noteq> MyDatabaseId c2"
    using that by (simp add: tag SET_LOCKTAG_RELATION_def)
  have contend: "(xact_lock_partitioned_rel c2 relid s1 = None) = IsSharedRelation c1 relid
        \<and> map_option fst (xact_is_table_being_modified c2 relid s1)
            = Some (IsSharedRelation c1 relid)"
    if cat: "IsSharedRelation c1 = IsSharedRelation c2"
      and db: "MyDatabaseId c1 \<noteq> MyDatabaseId c2"
      and be: "MyBackendId c1 \<noteq> MyBackendId c2"
      and run: "xact_lock_partitioned_rel c1 relid lmgr_startup = Some s1"
  proof -
    from run have h: "holds s1 =
        [(MyBackendId c1, SetLocktagRelationOid c1 relid, ShareUpdateExclusiveLock)]"
      using LockRelationOid_Some [of c1 relid ShareUpdateExclusiveLock lmgr_startup s1]
      by (simp add: xact_lock_partitioned_rel_def lmgr_startup_def)
    have c1: "DoLockModesConflict ShareUpdateExclusiveLock ShareUpdateExclusiveLock"
      and c2: "DoLockModesConflict ExclusiveLock ShareUpdateExclusiveLock"
      by (simp_all add: DoLockModesConflict_def LockConflicts_def lockmode_defs)
    have n1: "nLocks c2 (SetLocktagRelationOid c2 relid) ShareUpdateExclusiveLock s1 = 0"
      and n2: "nLocks c2 (SetLocktagRelationOid c2 relid) ExclusiveLock s1 = 0"
      using be by (simp_all add: nLocks_def h)
    have k1: "LockCheckConflicts c2 (SetLocktagRelationOid c2 relid) ShareUpdateExclusiveLock s1
        = IsSharedRelation c1 relid"
      and k2: "LockCheckConflicts c2 (SetLocktagRelationOid c2 relid) ExclusiveLock s1
        = IsSharedRelation c1 relid"
      using be same [OF cat db] c1 c2 by (auto simp: LockCheckConflicts_def h)
    show ?thesis
      by (simp add: xact_lock_partitioned_rel_def LockRelationOid_None
          xact_is_table_being_modified_eq n1 n2 k1 k2)
  qed
  have fields: "locktag_field1 (SetLocktagRelationOid c relid) =
       (if IsSharedRelation c relid then InvalidOid else MyDatabaseId c)"
    "locktag_field2 (SetLocktagRelationOid c relid) = relid"
    by (simp_all add: tag SET_LOCKTAG_RELATION_def)
  from tag [of c] fields xact_operations_calls_on [of c relid s] same contend
  show ?thesis by blast
qed

theorem SetLocktagRelationOid_database_witness:
  "IsSharedRelation (backend_of 1 5 XACT_READ_COMMITTED)
     = IsSharedRelation (backend_of 2 6 XACT_READ_COMMITTED)
   \<and> MyDatabaseId (backend_of 1 5 XACT_READ_COMMITTED)
     \<noteq> MyDatabaseId (backend_of 2 6 XACT_READ_COMMITTED)
   \<and> MyBackendId (backend_of 1 5 XACT_READ_COMMITTED)
     \<noteq> MyBackendId (backend_of 2 6 XACT_READ_COMMITTED)
   \<and> xact_lock_partitioned_rel (backend_of 1 5 XACT_READ_COMMITTED) 1262 lmgr_startup =
       Some \<lparr>holds = [(1, SET_LOCKTAG_RELATION InvalidOid 1262, ShareUpdateExclusiveLock)],
             calls = [AcquireCall 1 (SET_LOCKTAG_RELATION InvalidOid 1262)
                        ShareUpdateExclusiveLock False LOCKACQUIRE_OK]\<rparr>
   \<and> xact_lock_partitioned_rel (backend_of 2 6 XACT_READ_COMMITTED) 1262
       \<lparr>holds = [(1, SET_LOCKTAG_RELATION InvalidOid 1262, ShareUpdateExclusiveLock)],
        calls = [AcquireCall 1 (SET_LOCKTAG_RELATION InvalidOid 1262)
                   ShareUpdateExclusiveLock False LOCKACQUIRE_OK]\<rparr> = None
   \<and> xact_lock_partitioned_rel (backend_of 1 5 XACT_READ_COMMITTED) 16384 lmgr_startup =
       Some \<lparr>holds = [(1, SET_LOCKTAG_RELATION 5 16384, ShareUpdateExclusiveLock)],
             calls = [AcquireCall 1 (SET_LOCKTAG_RELATION 5 16384)
                        ShareUpdateExclusiveLock False LOCKACQUIRE_OK]\<rparr>
   \<and> xact_lock_partitioned_rel (backend_of 2 6 XACT_READ_COMMITTED) 16384
       \<lparr>holds = [(1, SET_LOCKTAG_RELATION 5 16384, ShareUpdateExclusiveLock)],
        calls = [AcquireCall 1 (SET_LOCKTAG_RELATION 5 16384)
                   ShareUpdateExclusiveLock False LOCKACQUIRE_OK]\<rparr> \<noteq> None"
proof -
  let ?c1 = "backend_of 1 5 XACT_READ_COMMITTED" and ?c2 = "backend_of 2 6 XACT_READ_COMMITTED"
  let ?sa = "\<lparr>holds = [(1, SET_LOCKTAG_RELATION InvalidOid 1262, ShareUpdateExclusiveLock)],
             calls = [AcquireCall 1 (SET_LOCKTAG_RELATION InvalidOid 1262)
                        ShareUpdateExclusiveLock False LOCKACQUIRE_OK]\<rparr>"
  let ?sb = "\<lparr>holds = [(1, SET_LOCKTAG_RELATION 5 16384, ShareUpdateExclusiveLock)],
             calls = [AcquireCall 1 (SET_LOCKTAG_RELATION 5 16384)
                        ShareUpdateExclusiveLock False LOCKACQUIRE_OK]\<rparr>"
  have cat: "IsSharedRelation ?c1 = IsSharedRelation ?c2"
    and db: "MyDatabaseId ?c1 \<noteq> MyDatabaseId ?c2"
    and be: "MyBackendId ?c1 \<noteq> MyBackendId ?c2"
    by (simp_all add: backend_of_sel)
  have sh: "IsSharedRelation ?c1 1262" "\<not> IsSharedRelation ?c1 16384"
    by (simp_all add: backend_of_sel shared_1262_def)
  have ra: "xact_lock_partitioned_rel ?c1 1262 lmgr_startup = Some ?sa"
    by (simp add: xact_lock_partitioned_rel_def LockRelationOid_def LockAcquire_def tag_1262
        nLocks_def LockCheckConflicts_def lmgr_startup_def backend_of_sel)
  have rb: "xact_lock_partitioned_rel ?c1 16384 lmgr_startup = Some ?sb"
    by (simp add: xact_lock_partitioned_rel_def LockRelationOid_def LockAcquire_def tag_16384
        nLocks_def LockCheckConflicts_def lmgr_startup_def backend_of_sel)
  from SetLocktagRelationOid_database [where relid = 1262 and ?c1.0 = ?c1 and ?c2.0 = ?c2
      and ?s1.0 = ?sa] cat db be ra sh
  have a: "xact_lock_partitioned_rel ?c2 1262 ?sa = None" by blast
  from SetLocktagRelationOid_database [where relid = 16384 and ?c1.0 = ?c1 and ?c2.0 = ?c2
      and ?s1.0 = ?sb] cat db be rb sh
  have b: "xact_lock_partitioned_rel ?c2 16384 ?sb \<noteq> None" by blast
  from cat db be ra rb a b show ?thesis by blast
qed

section \<open>Isolation level\<close>

text \<open>
  C3, as stated: the test answers true exactly at the read-committed level. It does not:
  at the weaker read-uncommitted level the comparison \<^verbatim>\<open><=\<close> also answers true.
\<close>

theorem xact_is_level_read_committed_counterexample:
  "xact_is_level_read_committed (backend_of 1 5 XACT_READ_UNCOMMITTED)
   \<and> XACT_READ_UNCOMMITTED \<noteq> XACT_READ_COMMITTED"
  by (simp add: xact_is_level_read_committed_def backend_of_def isolevel_defs)

text \<open>
  C3, amended: the test answers true exactly when the isolation level is read-committed
  or weaker (\<^verbatim>\<open>XactIsoLevel <= XACT_READ_COMMITTED\<close>); among the four levels the server
  knows, that is exactly when it is neither repeatable-read nor serializable.
\<close>

theorem xact_is_level_read_committed_iff:
  "xact_is_level_read_committed c = (XactIsoLevel c \<le> XACT_READ_COMMITTED)
   \<and> (XactIsoLevel c \<in> {XACT_READ_UNCOMMITTED, XACT_READ_COMMITTED, XACT_REPEATABLE_READ,
        XACT_SERIALIZABLE} \<longrightarrow>
      xact_is_level_read_committed c =
        (XactIsoLevel c \<noteq> XACT_REPEATABLE_READ \<and> XactIsoLevel c \<noteq> XACT_SERIALIZABLE))"
  by (auto simp: xact_is_level_read_committed_def isolevel_defs)

theorem xact_is_level_read_committed_iff_witness:
  "XACT_REPEATABLE_READ \<in> {XACT_READ_UNCOMMITTED, XACT_READ_COMMITTED, XACT_REPEATABLE_READ,
      XACT_SERIALIZABLE}
   \<and> \<not> xact_is_level_read_committed (backend_of 1 5 XACT_REPEATABLE_READ)
   \<and> xact_is_level_read_committed (backend_of 1 5 XACT_READ_COMMITTED)"
  using xact_is_level_read_committed_iff [of "backend_of 1 5 XACT_REPEATABLE_READ"]
    xact_is_level_read_committed_iff [of "backend_of 1 5 XACT_READ_COMMITTED"]
  by (simp add: backend_of_def isolevel_defs)

section \<open>The range search\<close>

lemma ranges_ok_nth:
  assumes "ranges_ok ranges"
  shows "i < length ranges \<Longrightarrow> min_re (ranges ! i) \<le> max_re (ranges ! i)"
    and "i < j \<Longrightarrow> j < length ranges \<Longrightarrow> max_re (ranges ! i) \<le> min_re (ranges ! j)"
  using assms by (simp_all add: ranges_ok_def list_all_length sorted_wrt_iff_nth_less)

lemma ranges_ok_mono:
  assumes "ranges_ok ranges" "i \<le> j" "j < length ranges"
  shows "min_re (ranges ! i) \<le> min_re (ranges ! j)" and "max_re (ranges ! i) \<le> max_re (ranges ! j)"
proof -
  show "min_re (ranges ! i) \<le> min_re (ranges ! j)"
  proof (cases "i = j")
    case False
    with assms have "i < j" by simp
    from ranges_ok_nth(2) [OF assms(1) this assms(3)] ranges_ok_nth(1) [OF assms(1), of i] assms
    show ?thesis by force
  qed simp
  show "max_re (ranges ! i) \<le> max_re (ranges ! j)"
  proof (cases "i = j")
    case False
    with assms have "i < j" by simp
    from ranges_ok_nth(2) [OF assms(1) this assms(3)] ranges_ok_nth(1) [OF assms(1), of j] assms
    show ?thesis by force
  qed simp
qed

lemma range_bsearch_inv:
  assumes "ranges_ok ranges" "hi \<le> length ranges" "lo \<le> hi"
    and "\<forall>i<lo. max_re (ranges ! i) \<le> v"
    and "\<forall>i. hi \<le> i \<and> i < length ranges \<longrightarrow> v < min_re (ranges ! i)"
  shows "case range_bsearch v ranges lo hi of
      Inl i \<Rightarrow> i < length ranges \<and> min_re (ranges ! i) \<le> v \<and> v < max_re (ranges ! i)
    | Inr i \<Rightarrow> i \<le> length ranges \<and> (\<forall>j<i. max_re (ranges ! j) \<le> v)
         \<and> (\<forall>j. i \<le> j \<and> j < length ranges \<longrightarrow> v < min_re (ranges ! j))"
  using assms
proof (induction v ranges lo hi rule: range_bsearch.induct)
  case (1 v ranges lo hi)
  let ?mid = "(lo + hi) div 2"
  show ?case
  proof (cases "hi \<le> lo")
    case True
    with "1.prems" have "lo = hi" by simp
    with "1.prems" show ?thesis
      by (subst range_bsearch.simps) simp
  next
    case False
    then have mid: "lo \<le> ?mid" "?mid < hi" "?mid < length ranges"
      using "1.prems"(2) by auto
    show ?thesis
    proof (cases "v < min_re (ranges ! ?mid)")
      case True
      have above: "\<forall>i. ?mid \<le> i \<and> i < length ranges \<longrightarrow> v < min_re (ranges ! i)"
        using True ranges_ok_mono(1) [OF "1.prems"(1)] by (meson order_less_le_trans)
      have "range_bsearch v ranges lo hi = range_bsearch v ranges lo ?mid"
        using False True by (subst range_bsearch.simps) simp
      with "1.IH"(1) [OF False True "1.prems"(1) _ mid(1) "1.prems"(4) above] mid
      show ?thesis by simp
    next
      case notbelow: False
      show ?thesis
      proof (cases "max_re (ranges ! ?mid) \<le> v")
        case True
        have below: "\<forall>i<?mid + 1. max_re (ranges ! i) \<le> v"
          using True ranges_ok_mono(2) [OF "1.prems"(1) _ mid(3)]
          by (metis Suc_eq_plus1 less_Suc_eq_le order_trans)
        have "range_bsearch v ranges lo hi = range_bsearch v ranges (?mid + 1) hi"
          using False notbelow True by (subst range_bsearch.simps) simp
        with "1.IH"(2) [OF False notbelow True "1.prems"(1,2) _ below "1.prems"(5)] mid
        show ?thesis by simp
      next
        case False
        have "range_bsearch v ranges lo hi = Inl ?mid"
          using \<open>\<not> hi \<le> lo\<close> notbelow False by (subst range_bsearch.simps) simp
        with notbelow False mid show ?thesis by (auto simp: not_less not_le)
      qed
    qed
  qed
qed

text \<open>
  C6. On every sequence that satisfies the invariant and for every value, the search
  answers \<^verbatim>\<open>SEARCH_RANGEREL_FOUND\<close> exactly when some entry's interval \<open>[min, max)\<close>
  contains the value (and then hands out such an entry), \<^verbatim>\<open>SEARCH_RANGEREL_GAP\<close> exactly
  when no entry contains it and it lies at or above one entry's upper bound and below
  another entry's lower bound, and \<^verbatim>\<open>SEARCH_RANGEREL_OUT_OF_RANGE\<close> in every other case,
  which is: the sequence is empty, or the value is below the first interval, or it is at
  or above the last interval's upper bound.
\<close>

theorem search_range_partition_eq_correct:
  assumes "ranges_ok ranges"
  shows "fst (search_range_partition_eq v ranges) =
      (if \<exists>re \<in> set ranges. min_re re \<le> v \<and> v < max_re re then SEARCH_RANGEREL_FOUND
       else if \<exists>below \<in> set ranges. \<exists>above \<in> set ranges. max_re below \<le> v \<and> v < min_re above
         then SEARCH_RANGEREL_GAP
       else SEARCH_RANGEREL_OUT_OF_RANGE)
    \<and> (fst (search_range_partition_eq v ranges) = SEARCH_RANGEREL_FOUND \<longrightarrow>
         (\<exists>re \<in> set ranges. snd (search_range_partition_eq v ranges) = Some re
            \<and> min_re re \<le> v \<and> v < max_re re))
    \<and> ((fst (search_range_partition_eq v ranges) = SEARCH_RANGEREL_OUT_OF_RANGE) =
         (ranges = [] \<or> v < min_re (hd ranges) \<or> max_re (last ranges) \<le> v))"
proof -
  let ?n = "length ranges"
  have inv: "case range_bsearch v ranges 0 ?n of
      Inl i \<Rightarrow> i < ?n \<and> min_re (ranges ! i) \<le> v \<and> v < max_re (ranges ! i)
    | Inr i \<Rightarrow> i \<le> ?n \<and> (\<forall>j<i. max_re (ranges ! j) \<le> v)
         \<and> (\<forall>j. i \<le> j \<and> j < ?n \<longrightarrow> v < min_re (ranges ! j))"
    by (rule range_bsearch_inv [OF assms]) auto
  show ?thesis
  proof (cases "range_bsearch v ranges 0 ?n")
    case (Inl i)
    with inv have i: "i < ?n" "min_re (ranges ! i) \<le> v" "v < max_re (ranges ! i)"
      by simp_all
    then have "\<exists>re \<in> set ranges. min_re re \<le> v \<and> v < max_re re"
      using nth_mem by blast
    moreover have "search_range_partition_eq v ranges = (SEARCH_RANGEREL_FOUND, Some (ranges ! i))"
      using Inl by (simp add: search_range_partition_eq_def)
    moreover have "ranges \<noteq> []" using i(1) by auto
    moreover have "\<not> v < min_re (hd ranges)"
    proof -
      from ranges_ok_mono(1) [OF assms, of 0 i] i(1) have "min_re (ranges ! 0) \<le> min_re (ranges ! i)"
        by simp
      with i(2) \<open>ranges \<noteq> []\<close> show ?thesis by (simp add: hd_conv_nth)
    qed
    moreover have "\<not> max_re (last ranges) \<le> v"
    proof -
      from ranges_ok_mono(2) [OF assms, of i "?n - 1"] i(1)
      have "max_re (ranges ! i) \<le> max_re (ranges ! (?n - 1))" by simp
      with i(3) \<open>ranges \<noteq> []\<close> show ?thesis by (simp add: last_conv_nth)
    qed
    ultimately show ?thesis using i by auto
  next
    case (Inr i)
    with inv have i: "i \<le> ?n" "\<And>j. j < i \<Longrightarrow> max_re (ranges ! j) \<le> v"
      "\<And>j. i \<le> j \<Longrightarrow> j < ?n \<Longrightarrow> v < min_re (ranges ! j)"
      by simp_all
    have uncovered: "\<not> (\<exists>re \<in> set ranges. min_re re \<le> v \<and> v < max_re re)"
    proof
      assume "\<exists>re \<in> set ranges. min_re re \<le> v \<and> v < max_re re"
      then obtain j where j: "j < ?n" "min_re (ranges ! j) \<le> v" "v < max_re (ranges ! j)"
        by (auto simp: in_set_conv_nth)
      show False
      proof (cases "j < i")
        case True
        from i(2) [OF this] j(3) show False by simp
      next
        case False
        then have "i \<le> j" by simp
        from i(3) [OF this j(1)] j(2) show False by simp
      qed
    qed
    have between: "(\<exists>below \<in> set ranges. \<exists>above \<in> set ranges. max_re below \<le> v \<and> v < min_re above)
        = (0 < i \<and> i < ?n)"
    proof
      assume "0 < i \<and> i < ?n"
      then have "i - 1 < i" "i - 1 < ?n" "i < ?n" by auto
      with i(2) [of "i - 1"] i(3) [of i]
      have "max_re (ranges ! (i - 1)) \<le> v" "v < min_re (ranges ! i)" by simp_all
      with \<open>i - 1 < ?n\<close> \<open>i < ?n\<close> show "\<exists>below \<in> set ranges. \<exists>above \<in> set ranges.
          max_re below \<le> v \<and> v < min_re above"
        using nth_mem by blast
    next
      assume "\<exists>below \<in> set ranges. \<exists>above \<in> set ranges. max_re below \<le> v \<and> v < min_re above"
      then obtain a b where ab: "a < ?n" "b < ?n" "max_re (ranges ! a) \<le> v" "v < min_re (ranges ! b)"
        by (auto simp: in_set_conv_nth)
      have "0 < i"
      proof (rule ccontr)
        assume "\<not> 0 < i"
        then have "v < min_re (ranges ! a)" using i(3) [of a] ab(1) by simp
        with ranges_ok_nth(1) [OF assms ab(1)] ab(3) show False by simp
      qed
      moreover have "i < ?n"
      proof (rule ccontr)
        assume "\<not> i < ?n"
        then have "max_re (ranges ! b) \<le> v" using i(2) [of b] ab(2) by simp
        with ranges_ok_nth(1) [OF assms ab(2)] ab(4) show False by simp
      qed
      ultimately show "0 < i \<and> i < ?n" ..
    qed
    have res: "search_range_partition_eq v ranges =
        (if i = 0 \<or> i = ?n then (SEARCH_RANGEREL_OUT_OF_RANGE, None) else (SEARCH_RANGEREL_GAP, None))"
      using Inr by (simp add: search_range_partition_eq_def)
    have edge: "ranges = [] \<or> v < min_re (hd ranges) \<or> max_re (last ranges) \<le> v"
      if "i = 0 \<or> i = ?n"
    proof (cases "ranges = []")
      case False
      then have n: "0 < ?n" by simp
      from that show ?thesis
      proof
        assume "i = 0"
        with i(3) [of 0] n have "v < min_re (ranges ! 0)" by simp
        with False show ?thesis by (simp add: hd_conv_nth)
      next
        assume "i = ?n"
        with i(2) [of "?n - 1"] n have "max_re (ranges ! (?n - 1)) \<le> v" by simp
        with False show ?thesis by (simp add: last_conv_nth)
      qed
    qed simp
    have outer: "i = 0 \<or> i = ?n"
      if "ranges = [] \<or> v < min_re (hd ranges) \<or> max_re (last ranges) \<le> v"
    proof (cases "ranges = []")
      case True
      with i(1) show ?thesis by simp
    next
      case False
      then have n: "0 < ?n" by simp
      from that False consider "v < min_re (ranges ! 0)" | "max_re (ranges ! (?n - 1)) \<le> v"
        by (auto simp: hd_conv_nth last_conv_nth)
      then show ?thesis
      proof cases
        case 1
        have "i = 0"
        proof (rule ccontr)
          assume "i \<noteq> 0"
          with i(2) [of 0] have "max_re (ranges ! 0) \<le> v" by simp
          with ranges_ok_nth(1) [OF assms n] 1 show False by simp
        qed
        then show ?thesis ..
      next
        case 2
        have "i = ?n"
        proof (rule ccontr)
          assume "i \<noteq> ?n"
          with i(1) n have "i \<le> ?n - 1" "?n - 1 < ?n" by simp_all
          with i(3) [of "?n - 1"] have "v < min_re (ranges ! (?n - 1))" by simp
          with ranges_ok_nth(1) [OF assms \<open>?n - 1 < ?n\<close>] 2 show False by simp
        qed
        then show ?thesis ..
      qed
    qed
    show ?thesis
      using res uncovered between edge outer i(1) by (auto split: if_splits)
  qed
qed

theorem search_range_partition_eq_correct_witness:
  "ranges_ok example_ranges
   \<and> fst (search_range_partition_eq 25 example_ranges) = SEARCH_RANGEREL_FOUND
   \<and> fst (search_range_partition_eq 15 example_ranges) = SEARCH_RANGEREL_GAP
   \<and> fst (search_range_partition_eq 10 example_ranges) = SEARCH_RANGEREL_GAP
   \<and> fst (search_range_partition_eq 30 example_ranges) = SEARCH_RANGEREL_OUT_OF_RANGE
   \<and> fst (search_range_partition_eq (- 1) example_ranges) = SEARCH_RANGEREL_OUT_OF_RANGE"
proof -
  have ok: "ranges_ok example_ranges"
    by (simp add: ranges_ok_def example_ranges_def)
  show ?thesis
    using ok search_range_partition_eq_correct [OF ok, of 25]
      search_range_partition_eq_correct [OF ok, of 15]
      search_range_partition_eq_correct [OF ok, of 10]
      search_range_partition_eq_correct [OF ok, of 30]
      search_range_partition_eq_correct [OF ok, of "- 1"]
    by (simp add: example_ranges_def)
qed

end
